theory Spec2Isabelle
  imports Main
begin

section \<open>Data model of \<open>load_data.py\<close>\<close>

text \<open>
  A calendar date as \<open>datetime.date\<close> holds it.
\<close>

record date =
  year :: nat
  month :: nat
  day :: nat

text \<open>
  One cell of a \<open>pandas.DataFrame\<close>. The numeric payload \<open>'n\<close> stands for the
  64-bit floats of pandas; it is left abstract, no arithmetic is done on it by the loader.
  \<open>Null\<close> stands for \<open>NaN\<close>, \<open>NaT\<close>, \<open>None\<close> and \<open>pd.NA\<close> alike (what
  \<open>isna()\<close> answers True on).
\<close>

datatype 'n cell = Null | Str string | Num 'n | IntV int | DateV date

text \<open>
  A data frame: its row index (integers, \<open>pd.read_csv\<close> gives \<open>0 .. n-1\<close>) and its
  columns in order, each a name and the values of the column.
\<close>

record 'n frame =
  index :: "int list"
  cols :: "(string \<times> 'n cell list) list"

datatype error =
    MissingColumns "string list"
      \<comment> \<open>\<open>ValueError("CSV missing expected columns: [...]")\<close> of \<open>normalize\<close>\<close>
  | DuplicateColumn string
      \<comment> \<open>\<open>df[c]\<close> is a DataFrame, not a Series, when the label \<open>c\<close> occurs twice; the
          statement that uses it as a Series raises (ValueError, TypeError or AttributeError)\<close>
  | KeyError string
  | SetitemLength nat nat
      \<comment> \<open>\<open>ValueError\<close> of \<open>df.loc[mask, c] = values\<close>: the mask selects \<open>k\<close> rows, \<open>values\<close> has
          \<open>n\<close> entries, \<open>0 \<noteq> k \<noteq> n\<close>\<close>
  | FileNotFoundError string
  | ReadError
      \<comment> \<open>whatever \<open>pd.read_csv\<close> raises\<close>
  | OSError
      \<comment> \<open>\<open>os.makedirs\<close> or \<open>open\<close> failing\<close>
  | StorageError
      \<comment> \<open>an exception of \<open>sqlite3\<close>\<close>
  | DanglingReference
      \<comment> \<open>a reference to no object of the store; Python has none\<close>

text \<open>
  The primitives of pandas the loader calls with \<open>errors="coerce"\<close>. They are parameters:
  \<open>parse_date\<close> is what \<open>pd.to_datetime\<close> makes of a non-null value (\<open>None\<close>: \<open>NaT\<close>),
  \<open>parse_float\<close> what \<open>pd.to_numeric\<close> makes of a string (\<open>None\<close>: \<open>NaN\<close>), and
  \<open>format_float\<close> is \<open>str\<close> of a float.
\<close>

record 'n pandas =
  parse_date :: "'n cell \<Rightarrow> date option"
  parse_float :: "string \<Rightarrow> 'n option"
  format_float :: "'n \<Rightarrow> string"

definition COLUMN_MAP :: "(string \<times> string) list" where
  "COLUMN_MAP =
    [(''Mission ID'', ''mission_id''),
     (''Mission Name'', ''mission_name''),
     (''Launch Date'', ''launch_date''),
     (''Target Type'', ''target_type''),
     (''Target Name'', ''target_name''),
     (''Mission Type'', ''mission_type''),
     (''Distance from Earth (light-years)'', ''distance_ly''),
     (''Mission Duration (years)'', ''duration_years''),
     (''Mission Cost (billion USD)'', ''cost_billion_usd''),
     (''Scientific Yield (points)'', ''scientific_yield''),
     (''Crew Size'', ''crew_size''),
     (''Mission Success (%)'', ''success_pct''),
     (''Fuel Consumption (tons)'', ''fuel_consumption_tons''),
     (''Payload Weight (tons)'', ''payload_weight_tons''),
     (''Launch Vehicle'', ''launch_vehicle'')]"

definition NUMERIC_COLS :: "string list" where
  "NUMERIC_COLS =
    [''distance_ly'', ''duration_years'', ''cost_billion_usd'', ''scientific_yield'',
     ''crew_size'', ''success_pct'', ''fuel_consumption_tons'', ''payload_weight_tons'']"

definition TEXT_COLS :: "string list" where
  "TEXT_COLS =
    [''mission_name'', ''target_type'', ''target_name'', ''mission_type'', ''launch_vehicle'']"

subsection \<open>Strings of Python\<close>

definition digit_char :: "nat \<Rightarrow> char" where
  "digit_char d =
     (if d = 0 then CHR ''0'' else if d = 1 then CHR ''1'' else if d = 2 then CHR ''2''
      else if d = 3 then CHR ''3'' else if d = 4 then CHR ''4'' else if d = 5 then CHR ''5''
      else if d = 6 then CHR ''6'' else if d = 7 then CHR ''7'' else if d = 8 then CHR ''8''
      else CHR ''9'')"

function str_nat :: "nat \<Rightarrow> string" where
  "str_nat n = (if n < 10 then [digit_char n] else str_nat (n div 10) @ [digit_char (n mod 10)])"
  by pat_completeness auto
termination
  by (relation "measure (\<lambda>n. n)") auto

declare str_nat.simps [simp del]

definition str_int :: "int \<Rightarrow> string" where
  "str_int i = (if i < 0 then CHR ''-'' # str_nat (nat (- i)) else str_nat (nat i))"

text \<open>\<open>str.zfill\<close>: zeros go after a leading sign; a string already wide enough is kept.\<close>

definition zfill :: "nat \<Rightarrow> string \<Rightarrow> string" where
  "zfill w s =
     (case s of
        c # r \<Rightarrow>
          if c = CHR ''+'' \<or> c = CHR ''-''
          then c # replicate (w - length s) CHR ''0'' @ r
          else replicate (w - length s) CHR ''0'' @ s
      | [] \<Rightarrow> replicate w CHR ''0'')"

text \<open>\<open>str(datetime.date)\<close>: \<open>YYYY-MM-DD\<close>.\<close>

definition isoformat :: "date \<Rightarrow> string" where
  "isoformat d =
     zfill 4 (str_nat (year d)) @ ''-'' @ zfill 2 (str_nat (month d)) @ ''-''
       @ zfill 2 (str_nat (day d))"

text \<open>
  \<open>str.strip()\<close> with no argument, on the ASCII range: the characters \<open>isspace()\<close> holds
  of are 9 to 13, 28 to 31 and 32.
\<close>

definition is_space :: "char \<Rightarrow> bool" where
  "is_space c = (let k = of_char c :: nat in (9 \<le> k \<and> k \<le> 13) \<or> (28 \<le> k \<and> k \<le> 32))"

definition strip :: "string \<Rightarrow> string" where
  "strip s = rev (dropWhile is_space (rev (dropWhile is_space s)))"

subsection \<open>Column access\<close>

definition columns :: "'n frame \<Rightarrow> string list" where
  "columns df = map fst (cols df)"

text \<open>\<open>df[c]\<close> read as a Series.\<close>

definition getcol :: "'n frame \<Rightarrow> string \<Rightarrow> error + 'n cell list" where
  "getcol df c =
     (case filter (\<lambda>p. fst p = c) (cols df) of
        [] \<Rightarrow> Inl (KeyError c)
      | [p] \<Rightarrow> Inr (snd p)
      | _ \<Rightarrow> Inl (DuplicateColumn c))"

text \<open>\<open>df[c] = vs\<close>: an existing label is overwritten in place, a new one is appended.\<close>

definition setcol :: "'n frame \<Rightarrow> string \<Rightarrow> 'n cell list \<Rightarrow> 'n frame" where
  "setcol df c vs =
     (if c \<in> set (columns df)
      then df\<lparr>cols := map (\<lambda>p. if fst p = c then (c, vs) else p) (cols df)\<rparr>
      else df\<lparr>cols := cols df @ [(c, vs)]\<rparr>)"

text \<open>\<open>df.rename(columns=m)\<close>: a new frame, labels outside \<open>m\<close> are kept.\<close>

definition rename :: "(string \<times> string) list \<Rightarrow> 'n frame \<Rightarrow> 'n frame" where
  "rename m df =
     df\<lparr>cols := map (\<lambda>p. (case map_of m (fst p) of Some k \<Rightarrow> k | None \<Rightarrow> fst p, snd p)) (cols df)\<rparr>"

subsection \<open>Element-wise conversions\<close>

definition to_datetime :: "'n pandas \<Rightarrow> 'n cell \<Rightarrow> date option" where
  "to_datetime pd c = (case c of Null \<Rightarrow> None | _ \<Rightarrow> parse_date pd c)"

text \<open>\<open>.dt.date\<close> and \<open>.dt.year\<close> of the parsed column.\<close>

definition dt_date :: "date option \<Rightarrow> 'n cell" where
  "dt_date r = (case r of None \<Rightarrow> Null | Some d \<Rightarrow> DateV d)"

definition dt_year :: "date option \<Rightarrow> 'n cell" where
  "dt_year r = (case r of None \<Rightarrow> Null | Some d \<Rightarrow> IntV (int (year d)))"

text \<open>\<open>.astype("string")\<close>: missing stays missing, everything else is its \<open>str\<close>.\<close>

definition astype_string :: "'n pandas \<Rightarrow> 'n cell \<Rightarrow> 'n cell" where
  "astype_string pd c =
     (case c of
        Null \<Rightarrow> Null
      | Str s \<Rightarrow> Str s
      | Num v \<Rightarrow> Str (format_float pd v)
      | IntV i \<Rightarrow> Str (str_int i)
      | DateV d \<Rightarrow> Str (isoformat d))"

text \<open>\<open>pd.to_numeric(..., errors="coerce")\<close> on one value.\<close>

definition to_numeric :: "'n pandas \<Rightarrow> 'n cell \<Rightarrow> 'n cell" where
  "to_numeric pd c =
     (case c of
        Str s \<Rightarrow> (case parse_float pd s of None \<Rightarrow> Null | Some v \<Rightarrow> Num v)
      | DateV d \<Rightarrow> Null
      | _ \<Rightarrow> c)"

definition str_strip :: "'n cell \<Rightarrow> 'n cell" where
  "str_strip c = (case c of Str s \<Rightarrow> Str (strip s) | _ \<Rightarrow> c)"

definition fillna :: "string \<Rightarrow> 'n cell \<Rightarrow> 'n cell" where
  "fillna s c = (case c of Null \<Rightarrow> Str s | _ \<Rightarrow> c)"

subsection \<open>Masked assignment\<close>

text \<open>
  \<open>df.loc[mask, c] = values\<close> where \<open>values\<close> is an \<open>Index\<close> (list-like, not a Series, so
  pandas does not align it on the row index): with \<open>k\<close> rows selected, the assignment needs
  \<open>k = len(values)\<close> and gives the selected rows the values in order; \<open>k = 0\<close> assigns
  nothing; any other \<open>k\<close> raises \<open>ValueError\<close>.
\<close>

fun assign_where :: "bool list \<Rightarrow> 'a list \<Rightarrow> 'a list \<Rightarrow> 'a list" where
  "assign_where (True # m) (x # xs) (v # vs) = v # assign_where m xs vs"
| "assign_where (False # m) (x # xs) vs = x # assign_where m xs vs"
| "assign_where m xs vs = xs"

definition loc_setitem :: "bool list \<Rightarrow> 'a list \<Rightarrow> 'a list \<Rightarrow> error + 'a list" where
  "loc_setitem sel xs vs =
     (let k = length (filter (\<lambda>b. b) sel) in
      if k = length vs then Inr (assign_where sel xs vs)
      else if k = 0 then Inr xs
      else Inl (SetitemLength k (length vs)))"

section \<open>\<open>normalize\<close>\<close>

text \<open>Sequencing of statements that may raise.\<close>

definition and_then :: "error + 'a \<Rightarrow> ('a \<Rightarrow> error + 'b) \<Rightarrow> error + 'b" where
  "and_then r f = (case r of Inl e \<Rightarrow> Inl e | Inr x \<Rightarrow> f x)"

definition missing_columns :: "'n frame \<Rightarrow> string list" where
  "missing_columns df = filter (\<lambda>c. c \<notin> set (columns df)) (map fst COLUMN_MAP)"

text \<open>Lines 98 to 100: the launch date and the launch year.\<close>

definition parse_launch_date :: "'n pandas \<Rightarrow> 'n frame \<Rightarrow> error + 'n frame" where
  "parse_launch_date pd df =
     and_then (getcol df ''launch_date'') (\<lambda>raw.
     let df1 = setcol df ''launch_date'' (map (\<lambda>c. dt_date (to_datetime pd c)) raw) in
     and_then (getcol df1 ''launch_date'') (\<lambda>dates.
     let df2 = setcol df1 ''launch_date'' (map (astype_string pd) dates) in
     and_then (getcol df2 ''launch_date'') (\<lambda>strs.
     Inr (setcol df2 ''launch_year'' (map (\<lambda>c. dt_year (to_datetime pd c)) strs)))))"

text \<open>Lines 103 and 104: the loop over \<open>NUMERIC_COLS\<close>.\<close>

fun coerce_numeric :: "'n pandas \<Rightarrow> string list \<Rightarrow> 'n frame \<Rightarrow> error + 'n frame" where
  "coerce_numeric pd [] df = Inr df"
| "coerce_numeric pd (c # cs) df =
     and_then (getcol df c) (\<lambda>vs. coerce_numeric pd cs (setcol df c (map (to_numeric pd) vs)))"

text \<open>Lines 107 to 111: the identifier.\<close>

definition synthesized_ids :: "'n frame \<Rightarrow> 'n cell list" where
  "synthesized_ids df = map (\<lambda>i. Str (''MSN-'' @ zfill 4 (str_int (i + 1)))) (index df)"

definition fill_mission_id :: "'n frame \<Rightarrow> error + 'n frame" where
  "fill_mission_id df =
     (if ''mission_id'' \<notin> set (columns df) then
        and_then (getcol df ''mission_id'') (\<lambda>ids. Inr df)
      else
        and_then (getcol df ''mission_id'') (\<lambda>ids.
        if Null \<in> set ids then
          let df1 = setcol df ''mission_id'' (map (fillna '''') ids) in
          and_then (getcol df1 ''mission_id'') (\<lambda>filled.
          and_then (loc_setitem (map (\<lambda>c. c = Str '''') filled) filled (synthesized_ids df1))
            (\<lambda>ids'. Inr (setcol df1 ''mission_id'' ids')))
        else Inr df))"

text \<open>Lines 114 to 116: the loop over the text fields.\<close>

fun strip_text :: "'n pandas \<Rightarrow> string list \<Rightarrow> 'n frame \<Rightarrow> error + 'n frame" where
  "strip_text pd [] df = Inr df"
| "strip_text pd (c # cs) df =
     (if c \<in> set (columns df)
      then and_then (getcol df c)
             (\<lambda>vs. strip_text pd cs (setcol df c (map (\<lambda>v. str_strip (astype_string pd v)) vs)))
      else strip_text pd cs df)"

text \<open>The statements after the column check, on the renamed copy.\<close>

definition coerce_all :: "'n pandas \<Rightarrow> 'n frame \<Rightarrow> error + 'n frame" where
  "coerce_all pd df =
     and_then (parse_launch_date pd df) (\<lambda>df1.
     and_then (coerce_numeric pd NUMERIC_COLS df1) (\<lambda>df2.
     and_then (fill_mission_id df2) (\<lambda>df3.
     strip_text pd TEXT_COLS df3)))"

definition normalize :: "'n pandas \<Rightarrow> 'n frame \<Rightarrow> error + 'n frame" where
  "normalize pd df =
     (let missing = missing_columns df in
      if missing \<noteq> [] then Inl (MissingColumns missing)
      else coerce_all pd (rename COLUMN_MAP df))"


section \<open>\<open>normalize\<close> on a store of objects\<close>

text \<open>
  Python passes the caller's DataFrame by reference. The store maps references to frames;
  \<open>df.rename(...)\<close> and \<open>.copy()\<close> each make a new object, and the local name \<open>df\<close> is
  bound to the copy, which every later \<open>df[c] = ...\<close> writes to.
\<close>

record 'n store =
  objs :: "nat \<Rightarrow> 'n frame option"
  next_ref :: nat

definition alloc :: "'n frame \<Rightarrow> 'n store \<Rightarrow> nat \<times> 'n store" where
  "alloc f st = (next_ref st, st\<lparr>objs := (objs st)(next_ref st \<mapsto> f), next_ref := Suc (next_ref st)\<rparr>)"

text \<open>Statements \<open>f\<close> that assign into the frame at reference \<open>r\<close>.\<close>

definition assign_in :: "nat \<Rightarrow> ('n frame \<Rightarrow> error + 'n frame) \<Rightarrow> 'n store \<Rightarrow> error option \<times> 'n store" where
  "assign_in r f st =
     (case objs st r of
        None \<Rightarrow> (Some DanglingReference, st)
      | Some d \<Rightarrow>
          (case f d of
             Inl e \<Rightarrow> (Some e, st)
           | Inr d' \<Rightarrow> (None, st\<lparr>objs := (objs st)(r \<mapsto> d')\<rparr>)))"

definition then_assign ::
  "error option \<times> 'n store \<Rightarrow> ('n store \<Rightarrow> error option \<times> 'n store) \<Rightarrow> error option \<times> 'n store" where
  "then_assign r f = (case r of (Some e, st) \<Rightarrow> (Some e, st) | (None, st) \<Rightarrow> f st)"

definition coerce_all_st :: "'n pandas \<Rightarrow> nat \<Rightarrow> 'n store \<Rightarrow> error option \<times> 'n store" where
  "coerce_all_st pd r st =
     then_assign (then_assign (then_assign
       (assign_in r (parse_launch_date pd) st)
       (assign_in r (coerce_numeric pd NUMERIC_COLS)))
       (assign_in r fill_mission_id))
       (assign_in r (strip_text pd TEXT_COLS))"

text \<open>
  The result is the reference of the normalized frame. \<open>renamed\<close> is the value of the
  object \<open>df.rename(columns=COLUMN_MAP)\<close> makes, at \<open>r1\<close>; \<open>.copy()\<close> makes the object at \<open>r\<close>.
\<close>

definition normalize_st :: "'n pandas \<Rightarrow> nat \<Rightarrow> 'n store \<Rightarrow> (error + nat) \<times> 'n store" where
  "normalize_st pd a st =
     (case objs st a of
        None \<Rightarrow> (Inl DanglingReference, st)
      | Some df \<Rightarrow>
          (let missing = missing_columns df in
           if missing \<noteq> [] then (Inl (MissingColumns missing), st)
           else
             (let renamed = rename COLUMN_MAP df;
                  (r1, st1) = alloc renamed st;
                  (r, st2) = alloc renamed st1;
                  (res, st3) = coerce_all_st pd r st2
              in ((case res of Some e \<Rightarrow> Inl e | None \<Rightarrow> Inr r), st3))))"

section \<open>\<open>read_input\<close>\<close>

definition backslash :: char where
  "backslash = char_of (92 :: nat)"

definition DEFAULT_CSV_PATH :: string where
  "DEFAULT_CSV_PATH =
     ''C:'' @ [backslash] @ ''Users'' @ [backslash] @ ''sujit'' @ [backslash]
       @ ''PycharmProjects'' @ [backslash] @ ''PythonProject1'' @ [backslash]
       @ ''space_missions_dataset.csv''"

definition DEFAULT_CSV_URL :: string where
  "DEFAULT_CSV_URL = ''/images/space-missions-dataset.csv''"

text \<open>\<open>str.lower()\<close> on the ASCII range.\<close>

definition lower_char :: "char \<Rightarrow> char" where
  "lower_char c =
     (let k = of_char c :: nat in if 65 \<le> k \<and> k \<le> 90 then char_of (k + 32) else c)"

definition lower :: "string \<Rightarrow> string" where
  "lower s = map lower_char s"

definition startswith :: "string \<Rightarrow> string \<Rightarrow> bool" where
  "startswith s p = (take (length p) s = p)"

definition is_url :: "string \<Rightarrow> bool" where
  "is_url p = (startswith (lower p) ''http://'' \<or> startswith (lower p) ''https://'')"

text \<open>
  The file system and the network as the reader sees them, and the calls it makes to them,
  in order.
\<close>

record 'n files =
  path_exists :: "string \<Rightarrow> bool"
  read_csv :: "string \<Rightarrow> error + 'n frame"

datatype io_call = Exists string | ReadCsv string

definition read_default :: "'n files \<Rightarrow> (error + 'n frame) \<times> io_call list" where
  "read_default fs =
     (if DEFAULT_CSV_PATH \<noteq> [] \<and> path_exists fs DEFAULT_CSV_PATH
      then (read_csv fs DEFAULT_CSV_PATH, [Exists DEFAULT_CSV_PATH, ReadCsv DEFAULT_CSV_PATH])
      else (read_csv fs DEFAULT_CSV_URL, [Exists DEFAULT_CSV_PATH, ReadCsv DEFAULT_CSV_URL]))"

text \<open>\<open>csv\<close> is \<open>args.csv\<close>; \<open>None\<close> and the empty string are both false for \<open>if\<close>.\<close>

definition read_input :: "'n files \<Rightarrow> string option \<Rightarrow> (error + 'n frame) \<times> io_call list" where
  "read_input fs csv =
     (case csv of
        None \<Rightarrow> read_default fs
      | Some p \<Rightarrow>
          if p = [] then read_default fs
          else if is_url p then (read_csv fs p, [ReadCsv p])
          else if \<not> path_exists fs p then (Inl (FileNotFoundError p), [Exists p])
          else (read_csv fs p, [Exists p, ReadCsv p]))"

section \<open>The four fetches\<close>

text \<open>
  What \<open>response.json()\<close> returns. A number is kept as its literal: the loader passes
  numbers on and computes nothing with them.
\<close>

datatype json =
    JNull | JBool bool | JNum string | JStr string | JArr "json list" | JObj "(string \<times> json) list"

text \<open>A response of \<open>requests\<close>; \<open>body = None\<close> when \<open>response.json()\<close> raises.\<close>

record response =
  status_code :: int
  body :: "json option"
  url :: string

text \<open>
  The network: what each request answers, \<open>None\<close> when \<open>requests\<close> raises (connection
  error, timeout). \<open>apod_get i\<close> is the request of the \<open>i\<close>-th iteration (the day \<open>i\<close> days
  ago), \<open>earth_head i\<close> the request for the \<open>i\<close>-th location.
\<close>

record network =
  apod_get :: "nat \<Rightarrow> response option"
  neo_get :: "response option"
  exoplanet_get :: "response option"
  earth_head :: "nat \<Rightarrow> response option"

text \<open>
  In the functions below \<open>None\<close> is a raised exception: each of them sits inside the
  \<open>try\<close> of a fetch.

  \<open>x.get(k, d)\<close>: only a dict has \<open>get\<close>.
\<close>

definition py_get :: "json \<Rightarrow> string \<Rightarrow> json \<Rightarrow> json option" where
  "py_get x k d =
     (case x of
        JObj kvs \<Rightarrow> Some (case map_of kvs k of None \<Rightarrow> d | Some v \<Rightarrow> v)
      | _ \<Rightarrow> None)"

text \<open>\<open>x[:500]\<close>: a string or a list can be sliced.\<close>

definition slice500 :: "json \<Rightarrow> json option" where
  "slice500 x =
     (case x of
        JStr s \<Rightarrow> Some (JStr (take 500 s))
      | JArr xs \<Rightarrow> Some (JArr (take 500 xs))
      | _ \<Rightarrow> None)"

text \<open>\<open>x[0]\<close>: no key of a parsed JSON object is the integer 0.\<close>

definition py_first :: "json \<Rightarrow> json option" where
  "py_first x =
     (case x of
        JArr (v # _) \<Rightarrow> Some v
      | JStr (c # _) \<Rightarrow> Some (JStr [c])
      | _ \<Rightarrow> None)"

text \<open>\<open>for v in x\<close>: a list gives its elements, a string its characters, a dict its keys.\<close>

definition py_iter :: "json \<Rightarrow> json list option" where
  "py_iter x =
     (case x of
        JArr vs \<Rightarrow> Some vs
      | JStr s \<Rightarrow> Some (map (\<lambda>c. JStr [c]) s)
      | JObj kvs \<Rightarrow> Some (map (\<lambda>p. JStr (fst p)) kvs)
      | _ \<Rightarrow> None)"

type_synonym entry = "(string \<times> json) list"

text \<open>
  A loop that appends \<open>f x\<close> for each \<open>x\<close> to the list built so far and is left at the first
  exception; the flag tells whether the loop ran to its end.
\<close>

fun append_each :: "('a \<Rightarrow> entry option) \<Rightarrow> 'a list \<Rightarrow> entry list \<Rightarrow> entry list \<times> bool" where
  "append_each f [] acc = (acc, True)"
| "append_each f (x # xs) acc =
     (case f x of None \<Rightarrow> (acc, False) | Some e \<Rightarrow> append_each f xs (acc @ [e]))"

subsection \<open>\<open>fetch_nasa_apod\<close>\<close>

definition apod_entry :: "json \<Rightarrow> entry option" where
  "apod_entry data =
     Option.bind (py_get data ''date'' JNull) (\<lambda>d.
     Option.bind (py_get data ''title'' JNull) (\<lambda>t.
     Option.bind (Option.bind (py_get data ''explanation'' (JStr [])) slice500) (\<lambda>e.
     Option.bind (py_get data ''url'' JNull) (\<lambda>u.
     Option.bind (py_get data ''media_type'' JNull) (\<lambda>m.
     Some [(''date'', d), (''title'', t), (''explanation'', e), (''url'', u),
           (''media_type'', m), (''source'', JStr ''APOD'')])))))"

text \<open>
  The body of the loop for iteration \<open>i\<close>: \<open>None\<close> when it raises, \<open>Some acc'\<close> with the list
  after the iteration otherwise (a status other than 200 appends nothing).
\<close>

definition apod_step :: "network \<Rightarrow> nat \<Rightarrow> entry list \<Rightarrow> entry list option" where
  "apod_step net i acc =
     (case apod_get net i of
        None \<Rightarrow> None
      | Some resp \<Rightarrow>
          if status_code resp = 200
          then (case body resp of
                  None \<Rightarrow> None
                | Some data \<Rightarrow> map_option (\<lambda>e. acc @ [e]) (apod_entry data))
          else Some acc)"

fun apod_loop :: "network \<Rightarrow> nat list \<Rightarrow> entry list \<Rightarrow> entry list" where
  "apod_loop net [] acc = acc"
| "apod_loop net (i # rest) acc =
     (case apod_step net i acc of None \<Rightarrow> acc | Some acc' \<Rightarrow> apod_loop net rest acc')"

definition fetch_nasa_apod :: "network \<Rightarrow> int \<Rightarrow> entry list" where
  "fetch_nasa_apod net days = apod_loop net [0 ..< nat days] []"

subsection \<open>\<open>fetch_nasa_neo\<close>\<close>

definition neo_entry :: "string \<Rightarrow> json \<Rightarrow> entry option" where
  "neo_entry date_str obj =
     Option.bind (py_get obj ''name'' JNull) (\<lambda>name.
     Option.bind (Option.bind (Option.bind (py_get obj ''estimated_diameter'' (JObj []))
         (\<lambda>x. py_get x ''kilometers'' (JObj [])))
         (\<lambda>x. py_get x ''estimated_diameter_max'' JNull)) (\<lambda>diameter.
     Option.bind (py_get obj ''is_potentially_hazardous_asteroid'' JNull) (\<lambda>hazardous.
     Option.bind (Option.bind (Option.bind (Option.bind
         (py_get obj ''close_approach_data'' (JArr [JObj []]))
         py_first)
         (\<lambda>x. py_get x ''relative_velocity'' (JObj [])))
         (\<lambda>x. py_get x ''kilometers_per_second'' JNull)) (\<lambda>velocity.
     Some [(''date'', JStr date_str), (''name'', name), (''diameter_km'', diameter),
           (''hazardous'', hazardous), (''velocity_kms'', velocity),
           (''source'', JStr ''NEO'')]))))"

fun neo_loop :: "(string \<times> json) list \<Rightarrow> entry list \<Rightarrow> entry list" where
  "neo_loop [] acc = acc"
| "neo_loop ((date_str, objects) # rest) acc =
     (case py_iter objects of
        None \<Rightarrow> acc
      | Some objs_list \<Rightarrow>
          (case append_each (neo_entry date_str) objs_list acc of
             (acc', False) \<Rightarrow> acc'
           | (acc', True) \<Rightarrow> neo_loop rest acc'))"

definition fetch_nasa_neo :: "network \<Rightarrow> entry list" where
  "fetch_nasa_neo net =
     (case neo_get net of
        None \<Rightarrow> []
      | Some resp \<Rightarrow>
          if status_code resp = 200
          then (case body resp of
                  None \<Rightarrow> []
                | Some data \<Rightarrow>
                    (case py_get data ''near_earth_objects'' (JObj []) of
                       Some (JObj kvs) \<Rightarrow> neo_loop kvs []
                     | _ \<Rightarrow> []))
          else [])"

subsection \<open>\<open>fetch_nasa_exoplanet\<close>\<close>

definition exoplanet_entry :: "json \<Rightarrow> entry option" where
  "exoplanet_entry planet =
     Option.bind (py_get planet ''pl_name'' JNull) (\<lambda>name.
     Option.bind (py_get planet ''sy_pnum'' JNull) (\<lambda>pnum.
     Option.bind (py_get planet ''pl_rade'' JNull) (\<lambda>rade.
     Option.bind (py_get planet ''pl_bmasse'' JNull) (\<lambda>masse.
     Option.bind (py_get planet ''sy_dist'' JNull) (\<lambda>dist.
     Option.bind (py_get planet ''disc_year'' JNull) (\<lambda>disc.
     Some [(''name'', name), (''planet_count'', pnum), (''radius_earth'', rade),
           (''mass_earth'', masse), (''distance_pc'', dist), (''discovery_year'', disc),
           (''source'', JStr ''Exoplanet Archive'')]))))))"

definition fetch_nasa_exoplanet :: "network \<Rightarrow> entry list" where
  "fetch_nasa_exoplanet net =
     (case exoplanet_get net of
        None \<Rightarrow> []
      | Some resp \<Rightarrow>
          if status_code resp = 200
          then (case body resp of
                  None \<Rightarrow> []
                | Some data \<Rightarrow>
                    (case py_iter data of
                       None \<Rightarrow> []
                     | Some planets \<Rightarrow> fst (append_each exoplanet_entry planets [])))
          else [])"

subsection \<open>\<open>fetch_nasa_earth_imagery\<close>\<close>

text \<open>The four locations: name, latitude, longitude.\<close>

definition locations :: "(string \<times> string \<times> string) list" where
  "locations =
     [(''New York City'', ''40.7128'', ''-74.0060''),
      (''Tokyo'', ''35.6895'', ''139.6917''),
      (''London'', ''51.5074'', ''-0.1278''),
      (''Sydney'', ''-33.8688'', ''151.2093'')]"

fun earth_loop :: "network \<Rightarrow> (nat \<times> string \<times> string \<times> string) list \<Rightarrow> entry list \<Rightarrow> entry list" where
  "earth_loop net [] acc = acc"
| "earth_loop net ((i, name, lat, lon) # rest) acc =
     (case earth_head net i of
        None \<Rightarrow> acc
      | Some resp \<Rightarrow>
          if status_code resp = 200
          then earth_loop net rest
                 (acc @ [[(''location'', JStr name), (''latitude'', JNum lat),
                          (''longitude'', JNum lon), (''url'', JStr (url resp)),
                          (''source'', JStr ''Earth Imagery'')]])
          else earth_loop net rest acc)"

definition fetch_nasa_earth_imagery :: "network \<Rightarrow> entry list" where
  "fetch_nasa_earth_imagery net = earth_loop net (zip [0 ..< length locations] locations) []"

section \<open>The database\<close>

text \<open>
  The SQLite file at \<open>db_path\<close>: each table is absent (\<open>None\<close>) or holds its rows in
  insertion order. A row of \<open>missions\<close> is the values \<open>to_sql\<close> wrote, by column name; a row
  of an auxiliary table is the tuple bound by the \<open>INSERT\<close>. The columns SQLite fills by
  itself (\<open>id\<close>, \<open>fetched_at\<close>) are left out.
\<close>

type_synonym 'n row = "(string \<times> 'n cell) list"

record 'n database =
  missions :: "'n row list option"
  apod :: "json list list option"
  neo :: "json list list option"
  exoplanet :: "json list list option"
  earth_imagery :: "json list list option"

definition empty_database :: "'n database" where
  "empty_database =
     \<lparr>missions = None, apod = None, neo = None, exoplanet = None, earth_imagery = None\<rparr>"

text \<open>
  What \<open>ensure_database\<close> acts on: the database file (\<open>None\<close>: no file at \<open>db_path\<close>) and
  the number of times the schema script has been executed.
\<close>

record 'n world =
  db_file :: "'n database option"
  schema_runs :: nat

text \<open>
  What \<open>ensure_database\<close> reads from outside: pandas, the files, the network, whether
  \<open>os.makedirs\<close> and the opening of \<open>schema.sql\<close> succeed, and which frames the
  \<open>missions\<close> table declared by \<open>schema.sql\<close> accepts (its columns and constraints).
\<close>

record 'n env =
  env_pd :: "'n pandas"
  env_files :: "'n files"
  env_net :: network
  makedirs_ok :: bool
  schema_readable :: bool
  table_accepts :: "'n frame \<Rightarrow> bool"

text \<open>
  Modelled from the spec: \<open>schema.sql\<close>, the script \<open>recreate_schema\<close> executes, is not among
  the sources. The spec: it "drops and recreates the mission table unconditionally", and
  the auxiliary tables "are separate".
\<close>

definition run_schema_script :: "'n database \<Rightarrow> 'n database" where
  "run_schema_script db = db\<lparr>missions := Some []\<rparr>"

definition recreate_schema :: "'n env \<Rightarrow> 'n database \<Rightarrow> error + 'n database" where
  "recreate_schema env db =
     (if schema_readable env then Inr (run_schema_script db) else Inl OSError)"

text \<open>The rows of a frame, as \<open>to_sql(..., index=False)\<close> writes them.\<close>

definition rows_of :: "'n frame \<Rightarrow> 'n row list" where
  "rows_of df = map (\<lambda>i. map (\<lambda>p. (fst p, snd p ! i)) (cols df)) [0 ..< length (index df)]"

text \<open>\<open>df.to_sql("missions", conn, if_exists="append", index=False)\<close>.\<close>

definition insert_data :: "'n env \<Rightarrow> 'n database \<Rightarrow> 'n frame \<Rightarrow> error + 'n database" where
  "insert_data env db df =
     (case missions db of
        None \<Rightarrow> Inr (db\<lparr>missions := Some (rows_of df)\<rparr>)
      | Some rows \<Rightarrow>
          if table_accepts env df then Inr (db\<lparr>missions := Some (rows @ rows_of df)\<rparr>)
          else Inl StorageError)"

subsection \<open>\<open>store_nasa_data\<close>\<close>

text \<open>\<open>sqlite3\<close> binds \<open>None\<close>, numbers, booleans and strings; a list or a dict raises.\<close>

definition bindable :: "json \<Rightarrow> bool" where
  "bindable v = (case v of JArr _ \<Rightarrow> False | JObj _ \<Rightarrow> False | _ \<Rightarrow> True)"

text \<open>The tuple \<open>(item[k1], item[k2], ...)\<close>; \<open>None\<close> is \<open>KeyError\<close>.\<close>

fun item_values :: "string list \<Rightarrow> entry \<Rightarrow> json list option" where
  "item_values [] item = Some []"
| "item_values (k # ks) item =
     (case map_of item k of
        None \<Rightarrow> None
      | Some v \<Rightarrow> map_option (\<lambda>vs. v # vs) (item_values ks item))"

text \<open>One \<open>for item in data: cursor.execute(INSERT ...)\<close> loop; \<open>None\<close> when it raises.\<close>

fun insert_items :: "string list \<Rightarrow> entry list \<Rightarrow> json list list \<Rightarrow> json list list option" where
  "insert_items ks [] rows = Some rows"
| "insert_items ks (item # items) rows =
     (case item_values ks item of
        None \<Rightarrow> None
      | Some vs \<Rightarrow> if list_all bindable vs then insert_items ks items (rows @ [vs]) else None)"

definition table_rows :: "'a list option \<Rightarrow> 'a list" where
  "table_rows t = (case t of None \<Rightarrow> [] | Some rows \<Rightarrow> rows)"

text \<open>\<open>CREATE TABLE IF NOT EXISTS\<close> for the four tables, and the commit after them.\<close>

definition create_aux_tables :: "'n database \<Rightarrow> 'n database" where
  "create_aux_tables db =
     db\<lparr>apod := Some (table_rows (apod db)),
        neo := Some (table_rows (neo db)),
        exoplanet := Some (table_rows (exoplanet db)),
        earth_imagery := Some (table_rows (earth_imagery db))\<rparr>"

text \<open>
  The inserts run in one transaction, committed at the end: when one of them raises, the
  connection is closed without a commit and the rows inserted so far are lost.
\<close>

definition store_nasa_data ::
  "'n database \<Rightarrow> entry list \<Rightarrow> entry list \<Rightarrow> entry list \<Rightarrow> entry list \<Rightarrow> error option \<times> 'n database" where
  "store_nasa_data db apod_data neo_data exoplanet_data earth_data =
     (let db1 = create_aux_tables db in
      case insert_items [''date'', ''title'', ''explanation'', ''url'', ''media_type'', ''source'']
             apod_data (table_rows (apod db1)) of
        None \<Rightarrow> (Some StorageError, db1)
      | Some a \<Rightarrow>
     (case insert_items [''date'', ''name'', ''diameter_km'', ''hazardous'', ''velocity_kms'', ''source'']
             neo_data (table_rows (neo db1)) of
        None \<Rightarrow> (Some StorageError, db1)
      | Some n \<Rightarrow>
     (case insert_items [''name'', ''planet_count'', ''radius_earth'', ''mass_earth'', ''distance_pc'',
                         ''discovery_year'', ''source'']
             exoplanet_data (table_rows (exoplanet db1)) of
        None \<Rightarrow> (Some StorageError, db1)
      | Some x \<Rightarrow>
     (case insert_items [''location'', ''latitude'', ''longitude'', ''url'', ''source'']
             earth_data (table_rows (earth_imagery db1)) of
        None \<Rightarrow> (Some StorageError, db1)
      | Some e \<Rightarrow>
          (None, db1\<lparr>apod := Some a, neo := Some n, exoplanet := Some x,
                      earth_imagery := Some e\<rparr>)))))"

section \<open>\<open>ensure_database\<close>\<close>

text \<open>
  The guard: the file exists, the table \<open>missions\<close> exists and \<open>SELECT COUNT(*)\<close> is
  positive.
\<close>

definition populated :: "'n world \<Rightarrow> bool" where
  "populated w =
     (case db_file w of
        None \<Rightarrow> False
      | Some db \<Rightarrow> (case missions db of None \<Rightarrow> False | Some rows \<Rightarrow> 0 < length rows))"

text \<open>
  From \<open>sqlite3.connect(db_path)\<close> to \<open>conn.close()\<close>: the error raised, if any, and the
  world left behind.
\<close>

definition build :: "'n env \<Rightarrow> 'n frame \<Rightarrow> 'n world \<Rightarrow> error option \<times> 'n world" where
  "build env df w =
     (let db0 = (case db_file w of None \<Rightarrow> empty_database | Some db \<Rightarrow> db) in
      case recreate_schema env db0 of
        Inl e \<Rightarrow> (Some e, w\<lparr>db_file := Some db0\<rparr>)
      | Inr db1 \<Rightarrow>
          (let w1 = w\<lparr>db_file := Some db1, schema_runs := Suc (schema_runs w)\<rparr> in
           case insert_data env db1 df of
             Inl e \<Rightarrow> (Some e, w1)
           | Inr db2 \<Rightarrow>
               (let apod_data = fetch_nasa_apod (env_net env) 7;
                    neo_data = fetch_nasa_neo (env_net env);
                    exoplanet_data = fetch_nasa_exoplanet (env_net env);
                    earth_data = fetch_nasa_earth_imagery (env_net env);
                    (res, db3) = store_nasa_data db2 apod_data neo_data exoplanet_data earth_data
                in (res, w1\<lparr>db_file := Some db3\<rparr>))))"

text \<open>The result is the exception that leaves \<open>ensure_database\<close>, if any, and the world.\<close>

definition ensure_database :: "'n env \<Rightarrow> 'n world \<Rightarrow> error option \<times> 'n world" where
  "ensure_database env w =
     (if populated w then (None, w)
      else
        (case fst (read_input (env_files env) None) of
           Inl e \<Rightarrow> (Some e, w)
         | Inr df_raw \<Rightarrow>
             (case normalize (env_pd env) df_raw of
                Inl e \<Rightarrow> (Some e, w)
              | Inr df \<Rightarrow>
                  if makedirs_ok env then build env df w else (Some OSError, w))))"

section \<open>Notions the properties are stated with\<close>

text \<open>An identifier that is null or the empty string.\<close>

definition is_missing_id :: "'n cell \<Rightarrow> bool" where
  "is_missing_id c = (c = Null \<or> c = Str [])"

text \<open>
  Each of the 15 mapped labels occurs exactly once among the columns (of the renamed
  frame): no source column already carries a mapped label.
\<close>

definition unique_labels :: "'n frame \<Rightarrow> bool" where
  "unique_labels df = list_all (\<lambda>k. count_list (columns df) k = 1) (map snd COLUMN_MAP)"

text \<open>
  The masked assignment of the identifiers has as many values as selected rows: no
  identifier is null, or every identifier is null or empty.
\<close>

definition ids_fillable :: "'n frame \<Rightarrow> bool" where
  "ids_fillable df =
     (case getcol df ''mission_id'' of
        Inl _ \<Rightarrow> False
      | Inr ids \<Rightarrow> Null \<in> set ids \<longrightarrow> length (filter is_missing_id ids) = length (index df))"

text \<open>The frames \<open>normalize\<close> returns a result for (lemma \<open>normalize_accepted\<close>).\<close>

definition accepted :: "'n frame \<Rightarrow> bool" where
  "accepted df =
     (missing_columns df = [] \<and> unique_labels (rename COLUMN_MAP df) \<and>
      ids_fillable (rename COLUMN_MAP df))"

text \<open>\<open>SELECT COUNT(*) FROM missions\<close>, 0 without file or table.\<close>

definition mission_count :: "'n world \<Rightarrow> nat" where
  "mission_count w =
     (case db_file w of None \<Rightarrow> 0 | Some db \<Rightarrow> length (table_rows (missions db)))"

section \<open>Concrete inputs\<close>

text \<open>
  An instance of the pandas primitives to run the model on: it reads one ISO date and
  unsigned decimal integers.
\<close>

definition demo_digits :: "string \<Rightarrow> int option" where
  "demo_digits s =
     (if s \<noteq> [] \<and> list_all (\<lambda>c. 48 \<le> (of_char c :: nat) \<and> (of_char c :: nat) \<le> 57) s
      then Some (foldl (\<lambda>a c. 10 * a + (int (of_char c) - 48)) 0 s) else None)"

definition demo_pd :: "int pandas" where
  "demo_pd =
     \<lparr>parse_date =
        (\<lambda>c. if c = Str ''2031-05-14'' then Some \<lparr>year = 2031, month = 5, day = 14\<rparr> else None),
      parse_float = demo_digits,
      format_float = str_int\<rparr>"

text \<open>A CSV of two rows with the 15 expected columns; the identifiers are the argument.\<close>

definition sample_cols :: "int cell list \<Rightarrow> (string \<times> int cell list) list" where
  "sample_cols ids =
    [(''Mission ID'', ids),
     (''Mission Name'', [Str '' Ares '', Str ''Hermes'']),
     (''Launch Date'', [Str ''2031-05-14'', Str ''soon'']),
     (''Target Type'', [Str ''Planet'', Null]),
     (''Target Name'', [Str ''Mars'', Str ''Titan '']),
     (''Mission Type'', [Str ''Crewed'', Str ''Probe'']),
     (''Distance from Earth (light-years)'', [Str ''12'', Str ''far'']),
     (''Mission Duration (years)'', [IntV 3, IntV 7]),
     (''Mission Cost (billion USD)'', [Str ''n/a'', Str ''40'']),
     (''Scientific Yield (points)'', [IntV 90, Null]),
     (''Crew Size'', [IntV 6, IntV 0]),
     (''Mission Success (%)'', [IntV 95, IntV 80]),
     (''Fuel Consumption (tons)'', [Str ''500'', Str ''?'']),
     (''Payload Weight (tons)'', [IntV 20, IntV 2]),
     (''Launch Vehicle'', [Str ''SLS'', Str ''Falcon''])]"

definition sample_frame :: "int cell list \<Rightarrow> int frame" where
  "sample_frame ids = \<lparr>index = [0, 1], cols = sample_cols ids\<rparr>"

text \<open>The same CSV with a sixteenth column.\<close>

definition notes_frame :: "int frame" where
  "notes_frame =
     \<lparr>index = [0, 1],
      cols = sample_cols [Str ''M-1'', Str ''M-2''] @ [(''Notes'', [Str ''first'', Null])]\<rparr>"

text \<open>The same CSV without its \<open>Mission ID\<close> and \<open>Launch Vehicle\<close> columns.\<close>

definition short_frame :: "int frame" where
  "short_frame = \<lparr>index = [0, 1], cols = butlast (tl (sample_cols []))\<rparr>"

definition demo_store :: "int frame \<Rightarrow> int store" where
  "demo_store df = \<lparr>objs = (\<lambda>r. if r = 0 then Some df else None), next_ref = 1\<rparr>"

text \<open>A file system with the default CSV, and one without any file.\<close>

definition local_files :: "int files" where
  "local_files =
     \<lparr>path_exists = (\<lambda>p. p = DEFAULT_CSV_PATH),
      read_csv = (\<lambda>p. if p = DEFAULT_CSV_PATH then Inr (sample_frame [Str ''M-1'', Str ''M-2''])
                        else Inl ReadError)\<rparr>"

definition no_files :: "int files" where
  "no_files = \<lparr>path_exists = (\<lambda>p. False), read_csv = (\<lambda>p. Inl ReadError)\<rparr>"

text \<open>A network where every request raises, and one where only the first APOD request answers.\<close>

definition dead_network :: network where
  "dead_network =
     \<lparr>apod_get = (\<lambda>i. None), neo_get = None, exoplanet_get = None, earth_head = (\<lambda>i. None)\<rparr>"

definition apod_response :: response where
  "apod_response =
     \<lparr>status_code = 200,
      body = Some (JObj [(''date'', JStr ''2026-11-04''), (''title'', JStr ''Nebula''),
                         (''explanation'', JStr ''A cloud.''), (''url'', JStr ''https://apod/1.jpg''),
                         (''media_type'', JStr ''image'')]),
      url = ''https://api.nasa.gov/planetary/apod''\<rparr>"

definition flaky_network :: network where
  "flaky_network =
     \<lparr>apod_get = (\<lambda>i. if i = 0 then Some apod_response else None),
      neo_get = None, exoplanet_get = None, earth_head = (\<lambda>i. None)\<rparr>"

definition demo_env :: "int env" where
  "demo_env =
     \<lparr>env_pd = demo_pd, env_files = local_files, env_net = dead_network,
      makedirs_ok = True, schema_readable = True, table_accepts = (\<lambda>df. True)\<rparr>"

definition fresh_world :: "int world" where
  "fresh_world = \<lparr>db_file = None, schema_runs = 0\<rparr>"

section \<open>Lemmas on column access\<close>

lemma filter_fst_count: "length (filter (\<lambda>p. fst p = k) xs) = count_list (map fst xs) k"
  by (induction xs) auto

lemma map_fst_overwrite: "map fst (map (\<lambda>p. if fst p = c then (c, vs) else p) xs) = map fst xs"
  by (induction xs) auto

lemma filter_overwrite:
  "filter (\<lambda>p. fst p = k) (map (\<lambda>p. if fst p = c then (c, vs) else p) xs) =
     (if k = c then map (\<lambda>p. (c, vs)) (filter (\<lambda>p. fst p = c) xs) else filter (\<lambda>p. fst p = k) xs)"
  by (induction xs) auto

lemma filter_absent: "c \<notin> set (map fst xs) \<Longrightarrow> filter (\<lambda>p. fst p = c) xs = []"
  by (induction xs) auto

lemma index_setcol [simp]: "index (setcol df c vs) = index df"
  by (simp add: setcol_def)

lemma columns_setcol:
  "columns (setcol df c vs) = (if c \<in> set (columns df) then columns df else columns df @ [c])"
  by (simp add: setcol_def columns_def map_fst_overwrite)

lemma getcol_Inr_count: "getcol df c = Inr vs \<Longrightarrow> count_list (columns df) c = 1"
  unfolding getcol_def columns_def filter_fst_count [symmetric]
  by (auto split: list.splits)

lemma count_getcol: "count_list (columns df) c = 1 \<Longrightarrow> \<exists>vs. getcol df c = Inr vs"
  unfolding getcol_def columns_def filter_fst_count [symmetric]
  by (auto split: list.splits)

lemma getcol_Inr_mem: "getcol df c = Inr vs \<Longrightarrow> c \<in> set (columns df)"
  using getcol_Inr_count [of df c vs] count_list_0_iff [of "columns df" c] by auto

lemma getcol_setcol_other: "k \<noteq> c \<Longrightarrow> getcol (setcol df c vs) k = getcol df k"
  by (simp add: getcol_def setcol_def filter_overwrite)

lemma getcol_setcol_same: "getcol df c = Inr ws \<Longrightarrow> getcol (setcol df c vs) c = Inr vs"
proof -
  assume a: "getcol df c = Inr ws"
  then have m: "c \<in> set (columns df)" by (rule getcol_Inr_mem)
  from a obtain p where "filter (\<lambda>p. fst p = c) (cols df) = [p]"
    by (auto simp: getcol_def split: list.splits)
  with m show ?thesis by (simp add: getcol_def setcol_def filter_overwrite)
qed

lemma getcol_setcol_new: "c \<notin> set (columns df) \<Longrightarrow> getcol (setcol df c vs) c = Inr vs"
  by (simp add: getcol_def setcol_def columns_def filter_absent)

lemma and_then_Inr [simp]: "and_then (Inr x) f = f x"
  by (simp add: and_then_def)

lemma and_then_Inl [simp]: "and_then (Inl e) f = Inl e"
  by (simp add: and_then_def)

lemma and_then_eq_Inr: "and_then r f = Inr y \<longleftrightarrow> (\<exists>x. r = Inr x \<and> f x = Inr y)"
  by (cases r) auto

lemma parse_launch_date_Inl: "getcol df ''launch_date'' = Inl e \<Longrightarrow> parse_launch_date pd df = Inl e"
  by (simp add: parse_launch_date_def)

lemma parse_launch_date_Inr:
  assumes "getcol df ''launch_date'' = Inr raw"
  shows "parse_launch_date pd df =
     Inr (setcol (setcol (setcol df ''launch_date'' (map (\<lambda>c. dt_date (to_datetime pd c)) raw))
            ''launch_date'' (map (\<lambda>c. astype_string pd (dt_date (to_datetime pd c))) raw))
            ''launch_year''
            (map (\<lambda>c. dt_year (to_datetime pd (astype_string pd (dt_date (to_datetime pd c))))) raw))"
proof -
  let ?d1 = "setcol df ''launch_date'' (map (\<lambda>c. dt_date (to_datetime pd c)) raw)"
  have g1: "getcol ?d1 ''launch_date'' = Inr (map (\<lambda>c. dt_date (to_datetime pd c)) raw)"
    using assms by (rule getcol_setcol_same)
  have g2: "getcol (setcol ?d1 ''launch_date'' xs) ''launch_date'' = Inr xs" for xs
    using g1 by (rule getcol_setcol_same)
  show ?thesis
    unfolding parse_launch_date_def
    by (simp add: assms g1 g2 Let_def o_def)
qed

section \<open>The steps of \<open>normalize\<close>\<close>

lemma coerce_numeric_Inr:
  "coerce_numeric pd cs df = Inr out \<Longrightarrow>
     index out = index df \<and> columns out = columns df \<and>
     (\<forall>c\<in>set cs. count_list (columns df) c = 1) \<and>
     (\<forall>k. k \<notin> set cs \<longrightarrow> getcol out k = getcol df k) \<and>
     (distinct cs \<longrightarrow>
        (\<forall>k\<in>set cs. \<exists>vs. getcol df k = Inr vs \<and> getcol out k = Inr (map (to_numeric pd) vs)))"
proof (induction cs arbitrary: df)
  case Nil
  then show ?case by simp
next
  case (Cons c cs)
  from Cons.prems obtain vs where g: "getcol df c = Inr vs"
    and r: "coerce_numeric pd cs (setcol df c (map (to_numeric pd) vs)) = Inr out"
    by (auto simp: and_then_eq_Inr)
  let ?d = "setcol df c (map (to_numeric pd) vs)"
  note ih = Cons.IH [OF r]
  have cm: "c \<in> set (columns df)" using g by (rule getcol_Inr_mem)
  have cols: "columns ?d = columns df" using cm by (simp add: columns_setcol)
  have same: "getcol ?d c = Inr (map (to_numeric pd) vs)" using g by (rule getcol_setcol_same)
  have other: "k \<noteq> c \<Longrightarrow> getcol ?d k = getcol df k" for k by (rule getcol_setcol_other)
  show ?case
  proof (intro conjI)
    show "index out = index df" using ih by simp
    show "columns out = columns df" using ih cols by simp
    show "\<forall>k\<in>set (c # cs). count_list (columns df) k = 1"
      using ih cols getcol_Inr_count [OF g] by simp
    show "\<forall>k. k \<notin> set (c # cs) \<longrightarrow> getcol out k = getcol df k"
      using ih other by simp
    show "distinct (c # cs) \<longrightarrow>
        (\<forall>k\<in>set (c # cs). \<exists>vs. getcol df k = Inr vs \<and> getcol out k = Inr (map (to_numeric pd) vs))"
    proof (intro impI ballI)
      fix k assume d: "distinct (c # cs)" and k: "k \<in> set (c # cs)"
      show "\<exists>vs. getcol df k = Inr vs \<and> getcol out k = Inr (map (to_numeric pd) vs)"
      proof (cases "k = c")
        case True
        with d have "c \<notin> set cs" by simp
        with ih have "getcol out c = getcol ?d c" by blast
        with same g True show ?thesis by simp
      next
        case False
        with k have "k \<in> set cs" by simp
        moreover from d have "distinct cs" by simp
        ultimately obtain ws where "getcol ?d k = Inr ws" "getcol out k = Inr (map (to_numeric pd) ws)"
          using ih by blast
        with other [OF False] have "getcol df k = Inr ws" by simp
        with \<open>getcol out k = Inr (map (to_numeric pd) ws)\<close> show ?thesis by blast
      qed
    qed
  qed
qed

lemma coerce_numeric_total:
  "\<forall>c\<in>set cs. count_list (columns df) c = 1 \<Longrightarrow> \<exists>out. coerce_numeric pd cs df = Inr out"
proof (induction cs arbitrary: df)
  case Nil
  then show ?case by simp
next
  case (Cons c cs)
  then obtain vs where g: "getcol df c = Inr vs" using count_getcol [of df c] by auto
  have "columns (setcol df c (map (to_numeric pd) vs)) = columns df"
    using getcol_Inr_mem [OF g] by (simp add: columns_setcol)
  with Cons.prems have "\<forall>k\<in>set cs. count_list (columns (setcol df c (map (to_numeric pd) vs))) k = 1"
    by simp
  from Cons.IH [OF this] show ?case using g by simp
qed

lemma count_le1_mem: "c \<in> set xs \<Longrightarrow> count_list xs c \<le> 1 \<Longrightarrow> count_list xs c = 1"
  using count_list_0_iff [of xs c] by (cases "count_list xs c") auto

lemma strip_text_Inr:
  "strip_text pd cs df = Inr out \<Longrightarrow>
     index out = index df \<and> columns out = columns df \<and>
     (\<forall>c\<in>set cs. count_list (columns df) c \<le> 1) \<and>
     (\<forall>k. k \<notin> set cs \<longrightarrow> getcol out k = getcol df k) \<and>
     (distinct cs \<longrightarrow>
        (\<forall>k\<in>set cs. \<forall>vs. getcol df k = Inr vs \<longrightarrow>
           getcol out k = Inr (map (\<lambda>v. str_strip (astype_string pd v)) vs)))"
proof (induction cs arbitrary: df)
  case Nil
  then show ?case by simp
next
  case (Cons c cs)
  show ?case
  proof (cases "c \<in> set (columns df)")
    case False
    with Cons.prems have r: "strip_text pd cs df = Inr out" by simp
    note ih = Cons.IH [OF r]
    have c0: "count_list (columns df) c = 0" using False by (simp add: count_list_0_iff)
    have nog: "getcol df c \<noteq> Inr vs" for vs using False getcol_Inr_mem by blast
    show ?thesis
    proof (intro conjI)
      show "index out = index df" using ih by simp
      show "columns out = columns df" using ih by simp
      show "\<forall>k\<in>set (c # cs). count_list (columns df) k \<le> 1" using ih c0 by simp
      show "\<forall>k. k \<notin> set (c # cs) \<longrightarrow> getcol out k = getcol df k" using ih by simp
      show "distinct (c # cs) \<longrightarrow>
        (\<forall>k\<in>set (c # cs). \<forall>vs. getcol df k = Inr vs \<longrightarrow>
           getcol out k = Inr (map (\<lambda>v. str_strip (astype_string pd v)) vs))"
        using ih nog by auto
    qed
  next
    case True
    with Cons.prems obtain vs where g: "getcol df c = Inr vs"
      and r: "strip_text pd cs (setcol df c (map (\<lambda>v. str_strip (astype_string pd v)) vs)) = Inr out"
      by (auto simp: and_then_eq_Inr)
    let ?d = "setcol df c (map (\<lambda>v. str_strip (astype_string pd v)) vs)"
    note ih = Cons.IH [OF r]
    have cols: "columns ?d = columns df" using True by (simp add: columns_setcol)
    have same: "getcol ?d c = Inr (map (\<lambda>v. str_strip (astype_string pd v)) vs)"
      using g by (rule getcol_setcol_same)
    have other: "k \<noteq> c \<Longrightarrow> getcol ?d k = getcol df k" for k by (rule getcol_setcol_other)
    show ?thesis
    proof (intro conjI)
      show "index out = index df" using ih by simp
      show "columns out = columns df" using ih cols by simp
      show "\<forall>k\<in>set (c # cs). count_list (columns df) k \<le> 1"
        using ih cols getcol_Inr_count [OF g] by simp
      show "\<forall>k. k \<notin> set (c # cs) \<longrightarrow> getcol out k = getcol df k"
        using ih other by simp
      show "distinct (c # cs) \<longrightarrow>
        (\<forall>k\<in>set (c # cs). \<forall>vs. getcol df k = Inr vs \<longrightarrow>
           getcol out k = Inr (map (\<lambda>v. str_strip (astype_string pd v)) vs))"
      proof (intro impI ballI allI)
        fix k ws assume d: "distinct (c # cs)" and k: "k \<in> set (c # cs)" and gk: "getcol df k = Inr ws"
        show "getcol out k = Inr (map (\<lambda>v. str_strip (astype_string pd v)) ws)"
        proof (cases "k = c")
          case True
          with d have "c \<notin> set cs" by simp
          with ih have "getcol out c = getcol ?d c" by blast
          with same g gk True show ?thesis by simp
        next
          case False
          with k have kc: "k \<in> set cs" by simp
          from d have dc: "distinct cs" by simp
          from other [OF False] gk have "getcol ?d k = Inr ws" by simp
          with ih kc dc show ?thesis by blast
        qed
      qed
    qed
  qed
qed

lemma strip_text_total:
  "\<forall>c\<in>set cs. count_list (columns df) c \<le> 1 \<Longrightarrow> \<exists>out. strip_text pd cs df = Inr out"
proof (induction cs arbitrary: df)
  case Nil
  then show ?case by simp
next
  case (Cons c cs)
  show ?case
  proof (cases "c \<in> set (columns df)")
    case False
    with Cons show ?thesis by simp
  next
    case True
    with Cons.prems have "count_list (columns df) c = 1" by (simp add: count_le1_mem)
    then obtain vs where g: "getcol df c = Inr vs" using count_getcol by blast
    have "columns (setcol df c (map (\<lambda>v. str_strip (astype_string pd v)) vs)) = columns df"
      using True by (simp add: columns_setcol)
    with Cons.prems
    have "\<forall>k\<in>set cs. count_list (columns (setcol df c (map (\<lambda>v. str_strip (astype_string pd v)) vs))) k \<le> 1"
      by simp
    from Cons.IH [OF this] show ?thesis using g True by simp
  qed
qed

lemma mask_count:
  "length (filter (\<lambda>b. b) (map (\<lambda>c. c = Str []) (map (fillna []) ids))) =
     length (filter is_missing_id ids)"
  by (induction ids) (auto simp: fillna_def is_missing_id_def split: cell.splits)

lemma length_synthesized_ids [simp]: "length (synthesized_ids df) = length (index df)"
  by (simp add: synthesized_ids_def)

lemma synthesized_ids_setcol [simp]: "synthesized_ids (setcol df c vs) = synthesized_ids df"
  by (simp add: synthesized_ids_def)

lemma fill_mission_id_no_null:
  "getcol df ''mission_id'' = Inr ids \<Longrightarrow> Null \<notin> set ids \<Longrightarrow> fill_mission_id df = Inr df"
  by (simp add: fill_mission_id_def getcol_Inr_mem)

lemma fill_mission_id_null:
  assumes g: "getcol df ''mission_id'' = Inr ids" and n: "Null \<in> set ids"
  shows "fill_mission_id df =
           (if length (filter is_missing_id ids) = length (index df)
            then Inr (setcol (setcol df ''mission_id'' (map (fillna []) ids)) ''mission_id''
                  (assign_where (map (\<lambda>c. c = Str []) (map (fillna []) ids))
                     (map (fillna []) ids) (synthesized_ids df)))
            else Inl (SetitemLength (length (filter is_missing_id ids)) (length (index df))))"
proof -
  define filled where "filled = map (fillna []) ids"
  define sel where "sel = map (\<lambda>c. c = Str []) filled"
  have g1: "getcol (setcol df ''mission_id'' filled) ''mission_id'' = Inr filled"
    using g by (rule getcol_setcol_same)
  from n have "filter is_missing_id ids \<noteq> []"
    by (auto simp: filter_empty_conv is_missing_id_def)
  then have k0: "length (filter is_missing_id ids) \<noteq> 0" by simp
  have kk: "length (filter (\<lambda>b. b) sel) = length (filter is_missing_id ids)"
    unfolding sel_def filled_def by (rule mask_count)
  have ls: "loc_setitem sel filled (synthesized_ids df) =
          (if length (filter is_missing_id ids) = length (index df)
           then Inr (assign_where sel filled (synthesized_ids df))
           else Inl (SetitemLength (length (filter is_missing_id ids)) (length (index df))))"
    unfolding loc_setitem_def Let_def kk using k0 by simp
  have "fill_mission_id df =
          and_then (loc_setitem (map (\<lambda>c. c = Str []) (map (fillna []) ids))
                      (map (fillna []) ids) (synthesized_ids df))
            (\<lambda>ids'. Inr (setcol (setcol df ''mission_id'' (map (fillna []) ids)) ''mission_id'' ids'))"
    using n getcol_Inr_mem [OF g] g1 [unfolded filled_def]
    by (simp add: fill_mission_id_def Let_def g del: map_map)
  then have "fill_mission_id df =
          and_then (loc_setitem sel filled (synthesized_ids df))
            (\<lambda>ids'. Inr (setcol (setcol df ''mission_id'' filled) ''mission_id'' ids'))"
    unfolding sel_def filled_def .
  then show ?thesis
    unfolding ls unfolding sel_def filled_def by simp
qed

lemma fill_mission_id_mismatch:
  assumes g: "getcol df ''mission_id'' = Inr ids" and n: "Null \<in> set ids"
    and k: "length (filter is_missing_id ids) \<noteq> length (index df)"
  shows "fill_mission_id df =
           Inl (SetitemLength (length (filter is_missing_id ids)) (length (index df)))"
  using fill_mission_id_null [OF g n] k by simp

lemma fill_mission_id_match:
  assumes g: "getcol df ''mission_id'' = Inr ids" and n: "Null \<in> set ids"
    and k: "length (filter is_missing_id ids) = length (index df)"
  shows "fill_mission_id df =
           Inr (setcol (setcol df ''mission_id'' (map (fillna []) ids)) ''mission_id''
                  (assign_where (map (\<lambda>c. c = Str []) (map (fillna []) ids))
                     (map (fillna []) ids) (synthesized_ids df)))"
  using fill_mission_id_null [OF g n] k by simp

lemma fill_mission_id_Inr:
  assumes "fill_mission_id df = Inr out"
  shows "index out = index df \<and> columns out = columns df \<and>
         (\<forall>k. k \<noteq> ''mission_id'' \<longrightarrow> getcol out k = getcol df k) \<and>
         (\<exists>ids. getcol df ''mission_id'' = Inr ids \<and>
            (Null \<in> set ids \<longrightarrow> length (filter is_missing_id ids) = length (index df)) \<and>
            getcol out ''mission_id'' =
              Inr (if Null \<in> set ids
                   then assign_where (map (\<lambda>c. c = Str []) (map (fillna []) ids))
                          (map (fillna []) ids) (synthesized_ids df)
                   else ids))"
proof -
  from assms obtain ids where g: "getcol df ''mission_id'' = Inr ids"
    by (cases "getcol df ''mission_id''") (auto simp: fill_mission_id_def split: if_splits)
  have m: "''mission_id'' \<in> set (columns df)" using g by (rule getcol_Inr_mem)
  show ?thesis
  proof (cases "Null \<in> set ids")
    case False
    with g assms have "out = df" by (simp add: fill_mission_id_no_null)
    with g False show ?thesis by auto
  next
    case True
    have k: "length (filter is_missing_id ids) = length (index df)"
    proof (rule ccontr)
      assume "length (filter is_missing_id ids) \<noteq> length (index df)"
      from fill_mission_id_mismatch [OF g True this] assms show False by simp
    qed
    let ?d1 = "setcol df ''mission_id'' (map (fillna []) ids)"
    let ?new = "assign_where (map (\<lambda>c. c = Str []) (map (fillna []) ids)) (map (fillna []) ids) (synthesized_ids df)"
    from fill_mission_id_match [OF g True k] assms have o: "out = setcol ?d1 ''mission_id'' ?new" by simp
    have g1: "getcol ?d1 ''mission_id'' = Inr (map (fillna []) ids)" using g by (rule getcol_setcol_same)
    have g2: "getcol out ''mission_id'' = Inr ?new" unfolding o using g1 by (rule getcol_setcol_same)
    have c: "columns out = columns df" unfolding o using m by (simp add: columns_setcol)
    have ot: "k \<noteq> ''mission_id'' \<Longrightarrow> getcol out k = getcol df k" for k
      unfolding o by (simp add: getcol_setcol_other)
    show ?thesis using g True k g2 c ot o by auto
  qed
qed

lemma fill_mission_id_total:
  assumes "getcol df ''mission_id'' = Inr ids"
    and "Null \<in> set ids \<longrightarrow> length (filter is_missing_id ids) = length (index df)"
  shows "\<exists>out. fill_mission_id df = Inr out"
  using assms fill_mission_id_no_null [of df ids] fill_mission_id_match [of df ids]
  by (cases "Null \<in> set ids") auto

lemma index_rename [simp]: "index (rename m df) = index df"
  by (simp add: rename_def)

lemma columns_rename:
  "columns (rename m df) = map (\<lambda>c. case map_of m c of Some k \<Rightarrow> k | None \<Rightarrow> c) (columns df)"
  by (simp add: rename_def columns_def)

lemma parse_launch_date_facts:
  assumes "parse_launch_date pd df = Inr out"
  shows "\<exists>raw. getcol df ''launch_date'' = Inr raw \<and>
           getcol out ''launch_date'' = Inr (map (\<lambda>c. astype_string pd (dt_date (to_datetime pd c))) raw) \<and>
           (count_list (columns df) ''launch_year'' \<le> 1 \<longrightarrow>
              getcol out ''launch_year'' =
                Inr (map (\<lambda>c. dt_year (to_datetime pd (astype_string pd (dt_date (to_datetime pd c))))) raw))"
    and "index out = index df"
    and "columns out = (if ''launch_year'' \<in> set (columns df) then columns df else columns df @ [''launch_year''])"
    and "\<forall>k. k \<noteq> ''launch_date'' \<and> k \<noteq> ''launch_year'' \<longrightarrow> getcol out k = getcol df k"
proof -
  from assms obtain raw where g: "getcol df ''launch_date'' = Inr raw"
    by (cases "getcol df ''launch_date''") (auto simp: parse_launch_date_Inl)
  let ?A = "map (\<lambda>c. dt_date (to_datetime pd c)) raw"
  let ?B = "map (\<lambda>c. astype_string pd (dt_date (to_datetime pd c))) raw"
  let ?C = "map (\<lambda>c. dt_year (to_datetime pd (astype_string pd (dt_date (to_datetime pd c))))) raw"
  let ?d1 = "setcol df ''launch_date'' ?A"
  let ?d2 = "setcol ?d1 ''launch_date'' ?B"
  have o: "out = setcol ?d2 ''launch_year'' ?C"
    using parse_launch_date_Inr [OF g, of pd] assms by simp
  have m: "''launch_date'' \<in> set (columns df)" using g by (rule getcol_Inr_mem)
  have c2: "columns ?d2 = columns df" using m by (simp add: columns_setcol)
  have g1: "getcol ?d1 ''launch_date'' = Inr ?A" using g by (rule getcol_setcol_same)
  have g2: "getcol ?d2 ''launch_date'' = Inr ?B" using g1 by (rule getcol_setcol_same)
  have gd: "getcol out ''launch_date'' = Inr ?B"
    unfolding o using g2 by (simp add: getcol_setcol_other)
  have o2: "getcol ?d2 k = getcol df k" if "k \<noteq> ''launch_date''" for k
    using that by (simp add: getcol_setcol_other)
  have gy: "getcol out ''launch_year'' = Inr ?C" if le: "count_list (columns df) ''launch_year'' \<le> 1"
  proof (cases "''launch_year'' \<in> set (columns df)")
    case True
    from True le have "count_list (columns df) ''launch_year'' = 1" by (rule count_le1_mem)
    then obtain ws where "getcol df ''launch_year'' = Inr ws" using count_getcol by blast
    then have "getcol ?d2 ''launch_year'' = Inr ws" by (simp add: o2)
    then show ?thesis unfolding o by (rule getcol_setcol_same)
  next
    case False
    then have "''launch_year'' \<notin> set (columns ?d2)" by (simp add: c2)
    then show ?thesis unfolding o by (rule getcol_setcol_new)
  qed
  show "\<exists>raw. getcol df ''launch_date'' = Inr raw \<and>
           getcol out ''launch_date'' = Inr (map (\<lambda>c. astype_string pd (dt_date (to_datetime pd c))) raw) \<and>
           (count_list (columns df) ''launch_year'' \<le> 1 \<longrightarrow>
              getcol out ''launch_year'' =
                Inr (map (\<lambda>c. dt_year (to_datetime pd (astype_string pd (dt_date (to_datetime pd c))))) raw))"
    using g gd gy by blast
  show "index out = index df" unfolding o by simp
  show "columns out = (if ''launch_year'' \<in> set (columns df) then columns df else columns df @ [''launch_year''])"
    unfolding o by (simp add: columns_setcol [of ?d2] c2)
  show "\<forall>k. k \<noteq> ''launch_date'' \<and> k \<noteq> ''launch_year'' \<longrightarrow> getcol out k = getcol df k"
    unfolding o by (simp add: getcol_setcol_other)
qed

lemma count_list_snoc: "count_list (xs @ [c]) k = count_list xs k + (if k = c then 1 else 0)"
  by (induction xs) auto

lemma synthesized_ids_index: "index a = index b \<Longrightarrow> synthesized_ids a = synthesized_ids b"
  by (simp add: synthesized_ids_def)

lemma distinct_NUMERIC_COLS: "distinct NUMERIC_COLS"
  by (simp add: NUMERIC_COLS_def)

lemma distinct_TEXT_COLS: "distinct TEXT_COLS"
  by (simp add: TEXT_COLS_def)

lemma label_classes:
  "''launch_date'' \<notin> set NUMERIC_COLS" "''launch_date'' \<notin> set TEXT_COLS"
  "''launch_year'' \<notin> set NUMERIC_COLS" "''launch_year'' \<notin> set TEXT_COLS"
  "''mission_id'' \<notin> set NUMERIC_COLS" "''mission_id'' \<notin> set TEXT_COLS"
  "k \<in> set NUMERIC_COLS \<Longrightarrow> k \<notin> set TEXT_COLS"
  "k \<in> set NUMERIC_COLS \<Longrightarrow> k \<noteq> ''launch_date'' \<and> k \<noteq> ''launch_year'' \<and> k \<noteq> ''mission_id''"
  "k \<in> set TEXT_COLS \<Longrightarrow> k \<noteq> ''launch_date'' \<and> k \<noteq> ''launch_year'' \<and> k \<noteq> ''mission_id''"
  by (auto simp: NUMERIC_COLS_def TEXT_COLS_def)

lemma coerce_all_Inr:
  assumes "coerce_all pd df = Inr out"
  shows "index out = index df"
    and "columns out = (if ''launch_year'' \<in> set (columns df) then columns df else columns df @ [''launch_year''])"
    and "\<exists>raw. getcol df ''launch_date'' = Inr raw \<and>
           getcol out ''launch_date'' = Inr (map (\<lambda>c. astype_string pd (dt_date (to_datetime pd c))) raw) \<and>
           (count_list (columns df) ''launch_year'' \<le> 1 \<longrightarrow>
              getcol out ''launch_year'' =
                Inr (map (\<lambda>c. dt_year (to_datetime pd (astype_string pd (dt_date (to_datetime pd c))))) raw))"
    and "\<forall>k\<in>set NUMERIC_COLS. \<exists>vs. getcol df k = Inr vs \<and> getcol out k = Inr (map (to_numeric pd) vs)"
    and "\<forall>k\<in>set TEXT_COLS. \<forall>vs. getcol df k = Inr vs \<longrightarrow>
           getcol out k = Inr (map (\<lambda>v. str_strip (astype_string pd v)) vs)"
    and "\<exists>ids. getcol df ''mission_id'' = Inr ids \<and>
            (Null \<in> set ids \<longrightarrow> length (filter is_missing_id ids) = length (index df)) \<and>
            getcol out ''mission_id'' =
              Inr (if Null \<in> set ids
                   then assign_where (map (\<lambda>c. c = Str []) (map (fillna []) ids))
                          (map (fillna []) ids) (synthesized_ids df)
                   else ids)"
    and "\<forall>k. k \<noteq> ''launch_date'' \<and> k \<noteq> ''launch_year'' \<and> k \<noteq> ''mission_id'' \<and>
             k \<notin> set NUMERIC_COLS \<and> k \<notin> set TEXT_COLS \<longrightarrow> getcol out k = getcol df k"
    and "\<forall>k\<in>set TEXT_COLS. count_list (columns df) k \<le> 1"
proof -
  from assms obtain d1 d2 d3 where
    s1: "parse_launch_date pd df = Inr d1" and
    s2: "coerce_numeric pd NUMERIC_COLS d1 = Inr d2" and
    s3: "fill_mission_id d2 = Inr d3" and
    s4: "strip_text pd TEXT_COLS d3 = Inr out"
    unfolding coerce_all_def and_then_eq_Inr by blast
  note P = parse_launch_date_facts [OF s1]
  note N = coerce_numeric_Inr [OF s2]
  note F = fill_mission_id_Inr [OF s3]
  note S = strip_text_Inr [OF s4]
  have i2: "index d2 = index df" using N P(2) by simp
  show "index out = index df" using S F i2 by simp
  show "columns out = (if ''launch_year'' \<in> set (columns df) then columns df else columns df @ [''launch_year''])"
    using S F N P(3) by simp
  have keep_S: "k \<notin> set TEXT_COLS \<Longrightarrow> getcol out k = getcol d3 k" for k using S by blast
  have keep_F: "k \<noteq> ''mission_id'' \<Longrightarrow> getcol d3 k = getcol d2 k" for k using F by blast
  have keep_N: "k \<notin> set NUMERIC_COLS \<Longrightarrow> getcol d2 k = getcol d1 k" for k using N by blast
  have keep_P: "k \<noteq> ''launch_date'' \<Longrightarrow> k \<noteq> ''launch_year'' \<Longrightarrow> getcol d1 k = getcol df k" for k
    using P(4) by blast
  have ld: "getcol out ''launch_date'' = getcol d1 ''launch_date''"
    using keep_S [of "''launch_date''"] keep_F [of "''launch_date''"] keep_N [of "''launch_date''"]
    by (simp add: label_classes)
  have ly: "getcol out ''launch_year'' = getcol d1 ''launch_year''"
    using keep_S [of "''launch_year''"] keep_F [of "''launch_year''"] keep_N [of "''launch_year''"]
    by (simp add: label_classes)
  show "\<exists>raw. getcol df ''launch_date'' = Inr raw \<and>
           getcol out ''launch_date'' = Inr (map (\<lambda>c. astype_string pd (dt_date (to_datetime pd c))) raw) \<and>
           (count_list (columns df) ''launch_year'' \<le> 1 \<longrightarrow>
              getcol out ''launch_year'' =
                Inr (map (\<lambda>c. dt_year (to_datetime pd (astype_string pd (dt_date (to_datetime pd c))))) raw))"
    using P(1) unfolding ld ly .
  show "\<forall>k\<in>set NUMERIC_COLS. \<exists>vs. getcol df k = Inr vs \<and> getcol out k = Inr (map (to_numeric pd) vs)"
  proof
    fix k assume k: "k \<in> set NUMERIC_COLS"
    from N k distinct_NUMERIC_COLS obtain vs where
      a: "getcol d1 k = Inr vs" and b: "getcol d2 k = Inr (map (to_numeric pd) vs)" by blast
    from k have ne: "k \<noteq> ''launch_date'' \<and> k \<noteq> ''launch_year'' \<and> k \<noteq> ''mission_id''"
      and nt: "k \<notin> set TEXT_COLS" by (simp_all add: label_classes)
    have "getcol df k = Inr vs" using a keep_P [of k] ne by simp
    moreover have "getcol out k = Inr (map (to_numeric pd) vs)"
      using b keep_S [OF nt] keep_F [of k] ne by simp
    ultimately show "\<exists>vs. getcol df k = Inr vs \<and> getcol out k = Inr (map (to_numeric pd) vs)" by blast
  qed
  have text_d3: "getcol d3 k = getcol df k" if k: "k \<in> set TEXT_COLS" for k
  proof -
    from k have ne: "k \<noteq> ''launch_date'' \<and> k \<noteq> ''launch_year'' \<and> k \<noteq> ''mission_id''"
      by (simp add: label_classes)
    from k have nn: "k \<notin> set NUMERIC_COLS" using label_classes(7) by blast
    show ?thesis using keep_F [of k] keep_N [OF nn] keep_P [of k] ne by simp
  qed
  show "\<forall>k\<in>set TEXT_COLS. \<forall>vs. getcol df k = Inr vs \<longrightarrow>
           getcol out k = Inr (map (\<lambda>v. str_strip (astype_string pd v)) vs)"
    using S distinct_TEXT_COLS text_d3 by simp
  have c3: "columns d3 = columns d1" using F N by simp
  show "\<forall>k\<in>set TEXT_COLS. count_list (columns df) k \<le> 1"
  proof
    fix k assume k: "k \<in> set TEXT_COLS"
    with S have "count_list (columns d3) k \<le> 1" by blast
    moreover from k have "k \<noteq> ''launch_year''" by (simp add: label_classes)
    ultimately show "count_list (columns df) k \<le> 1"
      unfolding c3 P(3) by (simp add: count_list_snoc split: if_splits)
  qed
  have mid2: "getcol d2 ''mission_id'' = getcol df ''mission_id''"
    using keep_N [of "''mission_id''"] keep_P [of "''mission_id''"] by (simp add: label_classes)
  have mido: "getcol out ''mission_id'' = getcol d3 ''mission_id''"
    using keep_S [of "''mission_id''"] by (simp add: label_classes)
  have syn: "synthesized_ids d2 = synthesized_ids df" using i2 by (rule synthesized_ids_index)
  show "\<exists>ids. getcol df ''mission_id'' = Inr ids \<and>
            (Null \<in> set ids \<longrightarrow> length (filter is_missing_id ids) = length (index df)) \<and>
            getcol out ''mission_id'' =
              Inr (if Null \<in> set ids
                   then assign_where (map (\<lambda>c. c = Str []) (map (fillna []) ids))
                          (map (fillna []) ids) (synthesized_ids df)
                   else ids)"
    using F unfolding mid2 mido syn i2 by blast
  show "\<forall>k. k \<noteq> ''launch_date'' \<and> k \<noteq> ''launch_year'' \<and> k \<noteq> ''mission_id'' \<and>
             k \<notin> set NUMERIC_COLS \<and> k \<notin> set TEXT_COLS \<longrightarrow> getcol out k = getcol df k"
    using keep_S keep_F keep_N keep_P by simp
qed

lemma coerce_all_steps:
  assumes ld: "count_list (columns df) ''launch_date'' = 1"
    and nu: "\<forall>k\<in>set NUMERIC_COLS. count_list (columns df) k = 1"
    and g: "getcol df ''mission_id'' = Inr ids"
  shows "\<exists>d2. coerce_all pd df = and_then (fill_mission_id d2) (strip_text pd TEXT_COLS) \<and>
           index d2 = index df \<and> getcol d2 ''mission_id'' = Inr ids \<and>
           columns d2 = (if ''launch_year'' \<in> set (columns df) then columns df else columns df @ [''launch_year''])"
proof -
  from ld obtain raw where "getcol df ''launch_date'' = Inr raw" using count_getcol by blast
  then obtain d1 where s1: "parse_launch_date pd df = Inr d1"
    using parse_launch_date_Inr by blast
  note P = parse_launch_date_facts [OF s1]
  have "\<forall>k\<in>set NUMERIC_COLS. count_list (columns d1) k = 1"
  proof
    fix k assume k: "k \<in> set NUMERIC_COLS"
    then have "k \<noteq> ''launch_year''" by (simp add: label_classes)
    with nu k show "count_list (columns d1) k = 1"
      unfolding P(3) by (simp add: count_list_snoc)
  qed
  then obtain d2 where s2: "coerce_numeric pd NUMERIC_COLS d1 = Inr d2"
    using coerce_numeric_total by blast
  note N = coerce_numeric_Inr [OF s2]
  have "getcol d2 ''mission_id'' = getcol d1 ''mission_id''" using N by (simp add: label_classes)
  also have "\<dots> = getcol df ''mission_id''" using P(4) by simp
  finally have m2: "getcol d2 ''mission_id'' = Inr ids" using g by simp
  have "coerce_all pd df = and_then (fill_mission_id d2) (strip_text pd TEXT_COLS)"
    by (simp add: coerce_all_def s1 s2)
  moreover have "index d2 = index df" using N P(2) by simp
  moreover have "columns d2 = (if ''launch_year'' \<in> set (columns df) then columns df else columns df @ [''launch_year''])"
    using N P(3) by simp
  ultimately show ?thesis using m2 by blast
qed

lemma coerce_all_total:
  assumes ld: "count_list (columns df) ''launch_date'' = 1"
    and nu: "\<forall>k\<in>set NUMERIC_COLS. count_list (columns df) k = 1"
    and tx: "\<forall>k\<in>set TEXT_COLS. count_list (columns df) k \<le> 1"
    and g: "getcol df ''mission_id'' = Inr ids"
    and ok: "Null \<in> set ids \<longrightarrow> length (filter is_missing_id ids) = length (index df)"
  shows "\<exists>out. coerce_all pd df = Inr out"
proof -
  from coerce_all_steps [OF ld nu g, of pd] obtain d2 where
    e: "coerce_all pd df = and_then (fill_mission_id d2) (strip_text pd TEXT_COLS)" and
    i2: "index d2 = index df" and m2: "getcol d2 ''mission_id'' = Inr ids" and
    c2: "columns d2 = (if ''launch_year'' \<in> set (columns df) then columns df else columns df @ [''launch_year''])"
    by blast
  from ok i2 have "Null \<in> set ids \<longrightarrow> length (filter is_missing_id ids) = length (index d2)" by simp
  from fill_mission_id_total [OF m2 this] obtain d3 where s3: "fill_mission_id d2 = Inr d3" by blast
  note F = fill_mission_id_Inr [OF s3]
  have "\<forall>k\<in>set TEXT_COLS. count_list (columns d3) k \<le> 1"
  proof
    fix k assume k: "k \<in> set TEXT_COLS"
    then have "k \<noteq> ''launch_year''" by (simp add: label_classes)
    with tx k show "count_list (columns d3) k \<le> 1"
      using F unfolding c2 by (simp add: count_list_snoc)
  qed
  then obtain out where "strip_text pd TEXT_COLS d3 = Inr out" using strip_text_total by blast
  then show ?thesis by (simp add: e s3)
qed

lemma coerce_all_id_mismatch:
  assumes ld: "count_list (columns df) ''launch_date'' = 1"
    and nu: "\<forall>k\<in>set NUMERIC_COLS. count_list (columns df) k = 1"
    and g: "getcol df ''mission_id'' = Inr ids"
    and n: "Null \<in> set ids"
    and k: "length (filter is_missing_id ids) \<noteq> length (index df)"
  shows "coerce_all pd df = Inl (SetitemLength (length (filter is_missing_id ids)) (length (index df)))"
proof -
  from coerce_all_steps [OF ld nu g, of pd] obtain d2 where
    e: "coerce_all pd df = and_then (fill_mission_id d2) (strip_text pd TEXT_COLS)" and
    i2: "index d2 = index df" and m2: "getcol d2 ''mission_id'' = Inr ids"
    by blast
  from k i2 have "length (filter is_missing_id ids) \<noteq> length (index d2)" by simp
  from fill_mission_id_mismatch [OF m2 n this] show ?thesis by (simp add: e i2)
qed

lemma getcol_rename:
  assumes a: "getcol (rename m df) k = Inr vs" and b: "getcol df r = Inr raw"
    and c: "map_of m r = Some k"
  shows "vs = raw"
proof -
  let ?lab = "\<lambda>c. case map_of m c of Some k \<Rightarrow> k | None \<Rightarrow> c"
  let ?f = "\<lambda>p. (?lab (fst p), snd p)"
  have fm: "filter (\<lambda>p. fst p = k) (map ?f xs) = map ?f (filter (\<lambda>p. ?lab (fst p) = k) xs)" for xs :: "(string \<times> 'a cell list) list"
    by (induction xs) auto
  from a obtain q where q: "filter (\<lambda>p. ?lab (fst p) = k) (cols df) = [q]" and qv: "snd q = vs"
    unfolding getcol_def rename_def by (auto simp: fm split: list.splits)
  from b obtain p where p: "filter (\<lambda>p. fst p = r) (cols df) = [p]" and pv: "snd p = raw"
    unfolding getcol_def by (auto split: list.splits)
  from p have "p \<in> set (filter (\<lambda>p. fst p = r) (cols df))" by simp
  then have "p \<in> set (cols df)" "fst p = r" by auto
  with c have "p \<in> set (filter (\<lambda>p. ?lab (fst p) = k) (cols df))" by simp
  with q have "p = q" by simp
  with qv pv show ?thesis by simp
qed

section \<open>Properties of \<open>normalize\<close>\<close>

lemma distinct_raw_labels: "distinct (map fst COLUMN_MAP)"
  by (simp add: COLUMN_MAP_def)

lemma set_missing_columns:
  "set (missing_columns df) = set (map fst COLUMN_MAP) - set (columns df)"
  by (auto simp: missing_columns_def)

lemma missing_columns_Nil: "missing_columns df = [] \<longleftrightarrow> set (map fst COLUMN_MAP) \<subseteq> set (columns df)"
proof -
  have "missing_columns df = [] \<longleftrightarrow> set (missing_columns df) = {}" by simp
  also have "\<dots> \<longleftrightarrow> set (map fst COLUMN_MAP) \<subseteq> set (columns df)"
    unfolding set_missing_columns by auto
  finally show ?thesis .
qed

lemma normalize_missing:
  "missing_columns df \<noteq> [] \<Longrightarrow> normalize pd df = Inl (MissingColumns (missing_columns df))"
  by (simp add: normalize_def)

lemma normalize_present:
  "missing_columns df = [] \<Longrightarrow> normalize pd df = coerce_all pd (rename COLUMN_MAP df)"
  by (simp add: normalize_def)

lemma normalize_st_missing:
  "objs st a = Some df \<Longrightarrow> missing_columns df \<noteq> [] \<Longrightarrow>
     normalize_st pd a st = (Inl (MissingColumns (missing_columns df)), st)"
  by (simp add: normalize_st_def)

text \<open>
  Claim C1. A frame that lacks at least one of the 15 expected column names is rejected:
  \<open>normalize\<close> raises the error that carries exactly the expected names the frame does
  not have, and nothing is renamed or coerced: no object is made and the store is as
  before.
\<close>

theorem missing_columns_rejected:
  assumes "objs st a = Some df" and "\<not> set (map fst COLUMN_MAP) \<subseteq> set (columns df)"
  shows "normalize_st pd a st = (Inl (MissingColumns (missing_columns df)), st) \<and>
         normalize pd df = Inl (MissingColumns (missing_columns df)) \<and>
         set (missing_columns df) = set (map fst COLUMN_MAP) - set (columns df) \<and>
         missing_columns df \<noteq> [] \<and> length COLUMN_MAP = 15"
proof -
  from assms(2) have m: "missing_columns df \<noteq> []" using missing_columns_Nil by blast
  show ?thesis
    using m normalize_st_missing [OF assms(1) m] normalize_missing [OF m] set_missing_columns [of df]
    by (simp add: COLUMN_MAP_def)
qed

lemma columns_short_frame:
  "columns short_frame =
     [''Mission Name'', ''Launch Date'', ''Target Type'', ''Target Name'', ''Mission Type'',
      ''Distance from Earth (light-years)'', ''Mission Duration (years)'',
      ''Mission Cost (billion USD)'', ''Scientific Yield (points)'', ''Crew Size'',
      ''Mission Success (%)'', ''Fuel Consumption (tons)'', ''Payload Weight (tons)'']"
  by (simp add: short_frame_def sample_cols_def columns_def)

lemma missing_short_frame: "missing_columns short_frame = [''Mission ID'', ''Launch Vehicle'']"
  unfolding missing_columns_def columns_short_frame by (simp add: COLUMN_MAP_def)

theorem missing_columns_rejected_witness:
  "normalize_st demo_pd 0 (demo_store short_frame) =
     (Inl (MissingColumns [''Mission ID'', ''Launch Vehicle'']), demo_store short_frame) \<and>
   normalize demo_pd short_frame = Inl (MissingColumns [''Mission ID'', ''Launch Vehicle''])"
proof -
  have a: "objs (demo_store short_frame) 0 = Some short_frame" by (simp add: demo_store_def)
  have "missing_columns short_frame \<noteq> []" by (simp add: missing_short_frame)
  then have b: "\<not> set (map fst COLUMN_MAP) \<subseteq> set (columns short_frame)"
    using missing_columns_Nil by blast
  from missing_columns_rejected [OF a b, of demo_pd] show ?thesis
    by (simp add: missing_short_frame)
qed

lemma unique_labels_iff:
  "unique_labels df \<longleftrightarrow> (\<forall>k\<in>set (map snd COLUMN_MAP). count_list (columns df) k = 1)"
  by (simp add: unique_labels_def list_all_iff)

lemma mapped_labels:
  "set (map snd COLUMN_MAP) = {''mission_id'', ''launch_date''} \<union> set NUMERIC_COLS \<union> set TEXT_COLS"
  by (auto simp: COLUMN_MAP_def NUMERIC_COLS_def TEXT_COLS_def)

lemma map_of_COLUMN_MAP: "(r, k) \<in> set COLUMN_MAP \<Longrightarrow> map_of COLUMN_MAP r = Some k"
  using distinct_raw_labels by (rule map_of_is_SomeI)

lemma count_list_map_le: "count_list xs x \<le> count_list (map f xs) (f x)"
  by (induction xs) auto

lemma mapped_label_present:
  assumes m: "missing_columns df = []" and rk: "(r, k) \<in> set COLUMN_MAP"
  shows "r \<in> set (columns df)" and "k \<in> set (columns (rename COLUMN_MAP df))"
proof -
  from rk have "r \<in> set (map fst COLUMN_MAP)" by force
  with m show r: "r \<in> set (columns df)" using missing_columns_Nil by blast
  have "(case map_of COLUMN_MAP r of Some k \<Rightarrow> k | None \<Rightarrow> r) = k"
    using map_of_COLUMN_MAP [OF rk] by simp
  with r show "k \<in> set (columns (rename COLUMN_MAP df))"
    unfolding columns_rename by force
qed

lemma raw_column:
  assumes m: "missing_columns df = []" and rk: "(r, k) \<in> set COLUMN_MAP"
    and g: "getcol (rename COLUMN_MAP df) k = Inr vs"
  shows "getcol df r = Inr vs"
proof -
  let ?lab = "\<lambda>c. case map_of COLUMN_MAP c of Some k \<Rightarrow> k | None \<Rightarrow> c"
  have lab: "?lab r = k" using map_of_COLUMN_MAP [OF rk] by simp
  have "count_list (columns df) r \<le> count_list (map ?lab (columns df)) (?lab r)"
    by (rule count_list_map_le)
  also have "\<dots> = 1" using getcol_Inr_count [OF g] unfolding columns_rename lab .
  finally have "count_list (columns df) r \<le> 1" .
  with mapped_label_present(1) [OF m rk] have "count_list (columns df) r = 1"
    by (rule count_le1_mem)
  then obtain raw where raw: "getcol df r = Inr raw" using count_getcol by blast
  from getcol_rename [OF g raw map_of_COLUMN_MAP [OF rk]] raw show ?thesis by simp
qed

lemma accepted_normalize:
  assumes "accepted df"
  shows "\<exists>out. normalize pd df = Inr out"
proof -
  let ?d = "rename COLUMN_MAP df"
  from assms have m: "missing_columns df = []" and u: "unique_labels ?d" and f: "ids_fillable ?d"
    by (simp_all add: accepted_def)
  from u have cnt: "\<forall>k\<in>set (map snd COLUMN_MAP). count_list (columns ?d) k = 1"
    by (simp add: unique_labels_iff)
  from f obtain ids where g: "getcol ?d ''mission_id'' = Inr ids"
    and ok: "Null \<in> set ids \<longrightarrow> length (filter is_missing_id ids) = length (index ?d)"
    by (auto simp: ids_fillable_def split: sum.splits)
  have ld: "count_list (columns ?d) ''launch_date'' = 1" using cnt unfolding mapped_labels by simp
  have nu: "\<forall>k\<in>set NUMERIC_COLS. count_list (columns ?d) k = 1" using cnt unfolding mapped_labels by simp
  have tx: "\<forall>k\<in>set TEXT_COLS. count_list (columns ?d) k \<le> 1" using cnt unfolding mapped_labels by simp
  from coerce_all_total [OF ld nu tx g ok] show ?thesis by (simp add: normalize_present [OF m])
qed

lemma normalize_Inr_coerce_all:
  assumes "normalize pd df = Inr out"
  shows "missing_columns df = []" and "coerce_all pd (rename COLUMN_MAP df) = Inr out"
proof -
  show m: "missing_columns df = []"
  proof (rule ccontr)
    assume "missing_columns df \<noteq> []"
    from normalize_missing [OF this] assms show False by simp
  qed
  show "coerce_all pd (rename COLUMN_MAP df) = Inr out"
    using assms normalize_present [OF m] by simp
qed

lemma normalize_accepted:
  assumes "normalize pd df = Inr out"
  shows "accepted df"
proof -
  let ?d = "rename COLUMN_MAP df"
  note m = normalize_Inr_coerce_all(1) [OF assms]
  note c = normalize_Inr_coerce_all(2) [OF assms]
  note R = coerce_all_Inr [OF c]
  from R(6) obtain ids where g: "getcol ?d ''mission_id'' = Inr ids"
    and ok: "Null \<in> set ids \<longrightarrow> length (filter is_missing_id ids) = length (index ?d)" by blast
  have f: "ids_fillable ?d" using g ok by (simp add: ids_fillable_def)
  have "count_list (columns ?d) k = 1" if k: "k \<in> set (map snd COLUMN_MAP)" for k
  proof -
    from k consider "k = ''mission_id''" | "k = ''launch_date''" | "k \<in> set NUMERIC_COLS" | "k \<in> set TEXT_COLS"
      unfolding mapped_labels by blast
    then show ?thesis
    proof cases
      case 1 with g show ?thesis using getcol_Inr_count by blast
    next
      case 2 with R(3) show ?thesis using getcol_Inr_count by blast
    next
      case 3 with R(4) show ?thesis using getcol_Inr_count by blast
    next
      case 4
      with R(8) have le: "count_list (columns ?d) k \<le> 1" by blast
      from k obtain r where "(r, k) \<in> set COLUMN_MAP" by force
      from mapped_label_present(2) [OF m this] le show ?thesis by (rule count_le1_mem)
    qed
  qed
  then have "unique_labels ?d" by (simp add: unique_labels_iff)
  with m f show ?thesis by (simp add: accepted_def)
qed

section \<open>The concrete frames\<close>

lemma renamed_cols:
  "map (\<lambda>p. (case map_of COLUMN_MAP (fst p) of Some k \<Rightarrow> k | None \<Rightarrow> fst p, snd p)) (sample_cols ids) =
    [(''mission_id'', ids),
     (''mission_name'', [Str '' Ares '', Str ''Hermes'']),
     (''launch_date'', [Str ''2031-05-14'', Str ''soon'']),
     (''target_type'', [Str ''Planet'', Null]),
     (''target_name'', [Str ''Mars'', Str ''Titan '']),
     (''mission_type'', [Str ''Crewed'', Str ''Probe'']),
     (''distance_ly'', [Str ''12'', Str ''far'']),
     (''duration_years'', [IntV 3, IntV 7]),
     (''cost_billion_usd'', [Str ''n/a'', Str ''40'']),
     (''scientific_yield'', [IntV 90, Null]),
     (''crew_size'', [IntV 6, IntV 0]),
     (''success_pct'', [IntV 95, IntV 80]),
     (''fuel_consumption_tons'', [Str ''500'', Str ''?'']),
     (''payload_weight_tons'', [IntV 20, IntV 2]),
     (''launch_vehicle'', [Str ''SLS'', Str ''Falcon''])]"
  by (simp add: sample_cols_def COLUMN_MAP_def)

lemma columns_sample_cols:
  "map fst (sample_cols ids) =
     [''Mission ID'', ''Mission Name'', ''Launch Date'', ''Target Type'', ''Target Name'',
      ''Mission Type'', ''Distance from Earth (light-years)'', ''Mission Duration (years)'',
      ''Mission Cost (billion USD)'', ''Scientific Yield (points)'', ''Crew Size'',
      ''Mission Success (%)'', ''Fuel Consumption (tons)'', ''Payload Weight (tons)'',
      ''Launch Vehicle'']"
  by (simp add: sample_cols_def)

lemma missing_sample_frame: "missing_columns (sample_frame ids) = []"
  unfolding missing_columns_def columns_def sample_frame_def
  by (simp add: columns_sample_cols) (simp add: COLUMN_MAP_def)

lemma renamed_sample_columns:
  "columns (rename COLUMN_MAP (sample_frame ids)) =
     [''mission_id'', ''mission_name'', ''launch_date'', ''target_type'', ''target_name'',
      ''mission_type'', ''distance_ly'', ''duration_years'', ''cost_billion_usd'',
      ''scientific_yield'', ''crew_size'', ''success_pct'', ''fuel_consumption_tons'',
      ''payload_weight_tons'', ''launch_vehicle'']"
  unfolding columns_def rename_def sample_frame_def by (simp add: renamed_cols)

lemma unique_sample_frame: "unique_labels (rename COLUMN_MAP (sample_frame ids))"
  unfolding unique_labels_def renamed_sample_columns by (simp add: COLUMN_MAP_def)

lemma ids_sample_frame: "getcol (rename COLUMN_MAP (sample_frame ids)) ''mission_id'' = Inr ids"
  unfolding getcol_def rename_def sample_frame_def by (simp add: renamed_cols)

lemma index_sample_frame: "index (sample_frame ids) = [0, 1]"
  by (simp add: sample_frame_def)

lemma accepted_sample_frame:
  "Null \<in> set ids \<longrightarrow> length (filter is_missing_id ids) = 2 \<Longrightarrow> accepted (sample_frame ids)"
  by (simp add: accepted_def missing_sample_frame unique_sample_frame ids_fillable_def
      ids_sample_frame index_sample_frame)

section \<open>The identifier\<close>

lemma sample_counts:
  "count_list (columns (rename COLUMN_MAP (sample_frame ids))) ''launch_date'' = 1"
  "\<forall>k\<in>set NUMERIC_COLS. count_list (columns (rename COLUMN_MAP (sample_frame ids))) k = 1"
  using unique_sample_frame [of ids] unfolding unique_labels_iff mapped_labels by simp_all

lemma rows_without_null_keep_ids:
  assumes "normalize pd df = Inr out" and "getcol (rename COLUMN_MAP df) ''mission_id'' = Inr ids"
    and "Null \<notin> set ids"
  shows "getcol out ''mission_id'' = Inr ids"
  using coerce_all_Inr(6) [OF normalize_Inr_coerce_all(2) [OF assms(1)]] assms(2,3) by auto

text \<open>
  Claim C2 (the code does otherwise). With the identifier column \<open>[null, "M-2"]\<close> the masked
  assignment selects one row and is given the two synthesized identifiers:
  \<open>normalize\<close> raises instead of returning \<open>["MSN-0001", "M-2"]\<close>. With the identifier column
  \<open>["", "M-2"]\<close> no identifier is null, the guard \<open>isna().any()\<close> is false and the empty
  identifier is returned as it is.
\<close>

theorem mixed_identifiers:
  "normalize demo_pd (sample_frame [Null, Str ''M-2'']) = Inl (SetitemLength 1 2) \<and>
   map_sum id (\<lambda>out. getcol out ''mission_id'')
     (normalize demo_pd (sample_frame [Str [], Str ''M-2''])) = Inr (Inr [Str [], Str ''M-2''])"
proof
  let ?f = "sample_frame [Null, Str ''M-2'']"
  have n: "(Null :: int cell) \<in> set [Null, Str ''M-2'']" by simp
  have k: "length (filter is_missing_id [Null :: int cell, Str ''M-2'']) \<noteq> length (index (rename COLUMN_MAP ?f))"
    by (simp add: is_missing_id_def index_sample_frame)
  from coerce_all_id_mismatch [OF sample_counts ids_sample_frame n k, of demo_pd]
  show "normalize demo_pd ?f = Inl (SetitemLength 1 2)"
    by (simp add: normalize_present [OF missing_sample_frame] is_missing_id_def index_sample_frame)
next
  let ?g = "sample_frame [Str [], Str ''M-2'']"
  have "accepted ?g" by (rule accepted_sample_frame) simp
  then obtain out where o: "normalize demo_pd ?g = Inr out" using accepted_normalize by blast
  have "getcol out ''mission_id'' = Inr [Str [], Str ''M-2'']"
    by (rule rows_without_null_keep_ids [OF o ids_sample_frame]) simp
  with o show "map_sum id (\<lambda>out. getcol out ''mission_id'') (normalize demo_pd ?g) =
      Inr (Inr [Str [], Str ''M-2''])" by simp
qed

text \<open>What the code does reach: when every identifier is null or empty, each row gets
  \<open>MSN-\<close> and its 1-based position, padded to four digits.\<close>

lemma synthesized_ids_sample:
  "synthesized_ids (sample_frame ids) = [Str ''MSN-0001'', Str ''MSN-0002'']"
  by (simp add: synthesized_ids_def sample_frame_def str_int_def zfill_def str_nat.simps digit_char_def
      numeral_3_eq_3 numeral_2_eq_2)

lemma zfill_examples: "zfill 4 (str_int 1) = ''0001''" "zfill 4 (str_int 42) = ''0042''"
  by (simp_all add: str_int_def zfill_def str_nat.simps digit_char_def numeral_3_eq_3 numeral_2_eq_2)

lemma all_missing_identifiers:
  "map_sum id (\<lambda>out. getcol out ''mission_id'')
     (normalize demo_pd (sample_frame [Null, Str []])) = Inr (Inr [Str ''MSN-0001'', Str ''MSN-0002''])"
proof -
  let ?g = "sample_frame [Null, Str []]"
  have "accepted ?g" by (rule accepted_sample_frame) (simp add: is_missing_id_def)
  then obtain out where o: "normalize demo_pd ?g = Inr out" using accepted_normalize by blast
  have s: "synthesized_ids (rename COLUMN_MAP ?g) = [Str ''MSN-0001'', Str ''MSN-0002'']"
    using synthesized_ids_index [of "rename COLUMN_MAP ?g" ?g] by (simp add: synthesized_ids_sample)
  from coerce_all_Inr(6) [OF normalize_Inr_coerce_all(2) [OF o]]
  have "getcol out ''mission_id'' = Inr [Str ''MSN-0001'', Str ''MSN-0002'']"
    unfolding s by (simp add: ids_sample_frame fillna_def)
  with o show ?thesis by simp
qed

section \<open>Dates and numbers\<close>









lemma sample_raw_column:
  "getcol (sample_frame ids) ''Launch Date'' = Inr [Str ''2031-05-14'', Str ''soon'']"
  "getcol (sample_frame ids) ''Mission Cost (billion USD)'' = Inr [Str ''n/a'', Str ''40'']"
  by (simp_all add: getcol_def sample_frame_def sample_cols_def)

lemma demo_pd_parses:
  "parse_date demo_pd (Str ''2031-05-14'') = Some \<lparr>year = 2031, month = 5, day = 14\<rparr>"
  "to_datetime demo_pd (Str ''soon'') = None"
  "parse_float demo_pd ''n/a'' = None"
  by (simp_all add: demo_pd_def to_datetime_def demo_digits_def)


text \<open>
  Claim C6. For each of the eight numeric fields, a value \<open>pd.to_numeric\<close> cannot parse is
  null in the frame \<open>normalize\<close> returns, and it does not make \<open>normalize\<close> raise: whether a
  frame is \<open>accepted\<close> does not depend on how its values parse, and every accepted
  frame gets a result.
\<close>

theorem unparseable_number_is_null:
  assumes "accepted df" and "(r, k) \<in> set COLUMN_MAP" and "k \<in> set NUMERIC_COLS"
  shows "length NUMERIC_COLS = 8 \<and>
         (\<exists>out raw vs.
            normalize pd df = Inr out \<and> getcol df r = Inr raw \<and> getcol out k = Inr vs \<and>
            length vs = length raw \<and>
            (\<forall>i<length raw. \<forall>s. raw ! i = Str s \<and> parse_float pd s = None \<longrightarrow> vs ! i = Null))"
proof -
  from accepted_normalize [OF assms(1)] obtain out where o: "normalize pd df = Inr out" by blast
  note m = normalize_Inr_coerce_all(1) [OF o]
  note R = coerce_all_Inr [OF normalize_Inr_coerce_all(2) [OF o]]
  from R(4) assms(3) obtain raw where g: "getcol (rename COLUMN_MAP df) k = Inr raw"
    and v: "getcol out k = Inr (map (to_numeric pd) raw)" by blast
  have raw: "getcol df r = Inr raw" using raw_column [OF m assms(2) g] .
  have "\<forall>i<length raw. \<forall>s. raw ! i = Str s \<and> parse_float pd s = None \<longrightarrow>
          map (to_numeric pd) raw ! i = Null"
    by (simp add: to_numeric_def)
  with o raw v have "\<exists>out raw vs.
            normalize pd df = Inr out \<and> getcol df r = Inr raw \<and> getcol out k = Inr vs \<and>
            length vs = length raw \<and>
            (\<forall>i<length raw. \<forall>s. raw ! i = Str s \<and> parse_float pd s = None \<longrightarrow> vs ! i = Null)"
    by (intro exI [of _ out] exI [of _ raw] exI [of _ "map (to_numeric pd) raw"]) simp
  then show ?thesis by (simp add: NUMERIC_COLS_def)
qed

theorem unparseable_number_is_null_witness:
  "\<exists>out vs.
     normalize demo_pd (sample_frame [Str ''M-1'', Str ''M-2'']) = Inr out \<and>
     getcol out ''cost_billion_usd'' = Inr vs \<and> vs ! 0 = Null"
proof -
  let ?f = "sample_frame [Str ''M-1'', Str ''M-2'']"
  have a: "accepted ?f" by (rule accepted_sample_frame) simp
  have rk: "(''Mission Cost (billion USD)'', ''cost_billion_usd'') \<in> set COLUMN_MAP"
    by (simp add: COLUMN_MAP_def)
  have k: "''cost_billion_usd'' \<in> set NUMERIC_COLS" by (simp add: NUMERIC_COLS_def)
  from unparseable_number_is_null [OF a rk k, of demo_pd]
  obtain out raw vs where
    o: "normalize demo_pd ?f = Inr out" and
    r: "getcol ?f ''Mission Cost (billion USD)'' = Inr raw" and
    v: "getcol out ''cost_billion_usd'' = Inr vs" and
    rows: "\<forall>i<length raw. \<forall>s. raw ! i = Str s \<and> parse_float demo_pd s = None \<longrightarrow> vs ! i = Null"
    by blast
  from r have raw: "raw = [Str ''n/a'', Str ''40'']" by (simp add: sample_raw_column)
  from rows [rule_format, of 0 "''n/a''"] have "vs ! 0 = Null" by (simp add: raw demo_pd_parses)
  with o v show ?thesis by blast
qed

section \<open>The columns of the result\<close>

lemma renamed_label_set:
  assumes "missing_columns df = []"
  shows "set (columns (rename COLUMN_MAP df)) =
           set (map snd COLUMN_MAP) \<union> (set (columns df) - set (map fst COLUMN_MAP))"
proof -
  let ?lab = "\<lambda>c. case map_of COLUMN_MAP c of Some k \<Rightarrow> k | None \<Rightarrow> c"
  have c: "set (columns (rename COLUMN_MAP df)) = ?lab ` set (columns df)"
    unfolding columns_rename by simp
  show ?thesis
  proof (intro equalityI subsetI)
    fix x assume "x \<in> set (columns (rename COLUMN_MAP df))"
    then obtain c where cm: "c \<in> set (columns df)" and x: "x = ?lab c" unfolding c by blast
    show "x \<in> set (map snd COLUMN_MAP) \<union> (set (columns df) - set (map fst COLUMN_MAP))"
    proof (cases "map_of COLUMN_MAP c")
      case None
      then have "c \<notin> set (map fst COLUMN_MAP)" by (simp add: map_of_eq_None_iff)
      with None cm x show ?thesis by simp
    next
      case (Some k)
      then have "(c, k) \<in> set COLUMN_MAP" by (rule map_of_SomeD)
      then have "k \<in> set (map snd COLUMN_MAP)" by force
      with Some x show ?thesis by simp
    qed
  next
    fix x assume "x \<in> set (map snd COLUMN_MAP) \<union> (set (columns df) - set (map fst COLUMN_MAP))"
    then consider "x \<in> set (map snd COLUMN_MAP)" | "x \<in> set (columns df)" "x \<notin> set (map fst COLUMN_MAP)"
      by blast
    then show "x \<in> set (columns (rename COLUMN_MAP df))"
    proof cases
      case 1
      then obtain r where "(r, x) \<in> set COLUMN_MAP" by force
      from mapped_label_present(2) [OF assms this] show ?thesis .
    next
      case 2
      then have "map_of COLUMN_MAP x = None" by (simp add: map_of_eq_None_iff)
      then have "?lab x = x" by simp
      with 2(1) show ?thesis unfolding c by force
    qed
  qed
qed

lemma mapped_not_raw: "set (map snd COLUMN_MAP) \<inter> set (map fst COLUMN_MAP) = {}"
  by (simp add: COLUMN_MAP_def)

lemma launch_year_not_raw: "''launch_year'' \<notin> set (map fst COLUMN_MAP)"
  by (simp add: COLUMN_MAP_def)

lemma normalize_columns:
  assumes "normalize pd df = Inr out"
  shows "columns out =
           (if ''launch_year'' \<in> set (columns (rename COLUMN_MAP df))
            then columns (rename COLUMN_MAP df)
            else columns (rename COLUMN_MAP df) @ [''launch_year''])"
  using coerce_all_Inr(2) [OF normalize_Inr_coerce_all(2) [OF assms]] .

text \<open>
  Claim C8, amended. The columns of the frame \<open>normalize\<close> returns are the 15 mapped
  labels, \<open>launch_year\<close> and every column of the input that is not one of the 15 expected
  ones, under its own label; none of the 15 expected source labels remains. For an input
  with the 15 expected columns only, they are the 15 mapped labels and \<open>launch_year\<close>.
\<close>

theorem normalized_column_set:
  assumes "accepted df"
  shows "\<exists>out. normalize pd df = Inr out \<and>
           set (columns out) =
             set (map snd COLUMN_MAP) \<union> {''launch_year''} \<union>
             (set (columns df) - set (map fst COLUMN_MAP)) \<and>
           set (columns out) \<inter> set (map fst COLUMN_MAP) = {} \<and>
           (set (columns df) = set (map fst COLUMN_MAP) \<longrightarrow>
              set (columns out) = set (map snd COLUMN_MAP) \<union> {''launch_year''})"
proof -
  from accepted_normalize [OF assms] obtain out where o: "normalize pd df = Inr out" by blast
  note m = normalize_Inr_coerce_all(1) [OF o]
  have s: "set (columns out) =
             set (map snd COLUMN_MAP) \<union> {''launch_year''} \<union>
             (set (columns df) - set (map fst COLUMN_MAP))"
    unfolding normalize_columns [OF o] using renamed_label_set [OF m] by auto
  have n: "set (columns out) \<inter> set (map fst COLUMN_MAP) = {}"
    unfolding s using mapped_not_raw launch_year_not_raw by blast
  from o s n show ?thesis by auto
qed

lemma columns_notes_frame:
  "columns (rename COLUMN_MAP notes_frame) =
     [''mission_id'', ''mission_name'', ''launch_date'', ''target_type'', ''target_name'',
      ''mission_type'', ''distance_ly'', ''duration_years'', ''cost_billion_usd'',
      ''scientific_yield'', ''crew_size'', ''success_pct'', ''fuel_consumption_tons'',
      ''payload_weight_tons'', ''launch_vehicle'', ''Notes'']"
  unfolding columns_def rename_def notes_frame_def
  by (simp add: renamed_cols) (simp add: COLUMN_MAP_def)

lemma accepted_notes_frame: "accepted notes_frame"
proof -
  have "columns notes_frame = map fst (sample_cols [Str ''M-1'', Str ''M-2'']) @ [''Notes'']"
    by (simp add: columns_def notes_frame_def)
  then have m: "missing_columns notes_frame = []"
    unfolding missing_columns_def by (simp add: columns_sample_cols) (simp add: COLUMN_MAP_def)
  have u: "unique_labels (rename COLUMN_MAP notes_frame)"
    unfolding unique_labels_def columns_notes_frame by (simp add: COLUMN_MAP_def)
  have g: "getcol (rename COLUMN_MAP notes_frame) ''mission_id'' = Inr [Str ''M-1'', Str ''M-2'']"
    unfolding getcol_def rename_def notes_frame_def
    by (simp add: renamed_cols) (simp add: COLUMN_MAP_def)
  show ?thesis by (simp add: accepted_def m u ids_fillable_def g)
qed

theorem normalized_column_set_witness:
  "\<exists>out. normalize demo_pd notes_frame = Inr out \<and>
     set (columns out) =
       set (map snd COLUMN_MAP) \<union> {''launch_year''} \<union>
       (set (columns notes_frame) - set (map fst COLUMN_MAP)) \<and>
     set (columns out) \<inter> set (map fst COLUMN_MAP) = {}"
  using normalized_column_set [OF accepted_notes_frame, of demo_pd] by blast

text \<open>
  Claim C8 as stated fails: the CSV with the sixteenth column \<open>Notes\<close> is accepted and
  the result has 17 columns, \<open>Notes\<close> among them.
\<close>

theorem extra_column_kept:
  "map_sum id columns (normalize demo_pd notes_frame) =
     Inr [''mission_id'', ''mission_name'', ''launch_date'', ''target_type'', ''target_name'',
          ''mission_type'', ''distance_ly'', ''duration_years'', ''cost_billion_usd'',
          ''scientific_yield'', ''crew_size'', ''success_pct'', ''fuel_consumption_tons'',
          ''payload_weight_tons'', ''launch_vehicle'', ''Notes'', ''launch_year'']"
proof -
  from accepted_normalize [OF accepted_notes_frame] obtain out
    where o: "normalize demo_pd notes_frame = Inr out" by blast
  show ?thesis
    unfolding o using normalize_columns [OF o] by (simp add: columns_notes_frame)
qed

section \<open>Properties of \<open>read_input\<close>\<close>

lemma DEFAULT_CSV_PATH_nonempty: "DEFAULT_CSV_PATH \<noteq> []"
  by (simp add: DEFAULT_CSV_PATH_def)

text \<open>
  Claim C9. An explicit source that is a local path (not starting with \<open>http://\<close> or
  \<open>https://\<close>, whatever the case of its letters) and is absent on disk makes \<open>read_input\<close>
  raise \<open>FileNotFoundError\<close> without reading anything. Without an explicit source the
  reader checks the local default path first: it reads the local default when it exists, and
  the configured remote location only when the local default is absent. (For \<open>if\<close>, an
  empty string is no source.)
\<close>

theorem read_input_resolution:
  "(p \<noteq> [] \<and> \<not> is_url p \<and> \<not> path_exists fs p \<longrightarrow>
      read_input fs (Some p) = (Inl (FileNotFoundError p), [Exists p])) \<and>
   (path_exists fs DEFAULT_CSV_PATH \<longrightarrow>
      read_input fs None =
        (read_csv fs DEFAULT_CSV_PATH, [Exists DEFAULT_CSV_PATH, ReadCsv DEFAULT_CSV_PATH])) \<and>
   (\<not> path_exists fs DEFAULT_CSV_PATH \<longrightarrow>
      read_input fs None =
        (read_csv fs DEFAULT_CSV_URL, [Exists DEFAULT_CSV_PATH, ReadCsv DEFAULT_CSV_URL]))"
  by (simp add: read_input_def read_default_def DEFAULT_CSV_PATH_nonempty)

lemma not_url_example: "\<not> is_url ''missions.csv''"
  by (simp add: is_url_def startswith_def lower_def lower_char_def)

lemma is_url_example: "is_url ''HTTPS://example.org/m.csv''"
  by code_simp

theorem read_input_resolution_witness:
  "read_input no_files (Some ''missions.csv'') =
     (Inl (FileNotFoundError ''missions.csv''), [Exists ''missions.csv'']) \<and>
   read_input local_files None =
     (Inr (sample_frame [Str ''M-1'', Str ''M-2'']),
      [Exists DEFAULT_CSV_PATH, ReadCsv DEFAULT_CSV_PATH]) \<and>
   read_input no_files None = (Inl ReadError, [Exists DEFAULT_CSV_PATH, ReadCsv DEFAULT_CSV_URL])"
proof -
  have a: "\<not> path_exists no_files p" for p by (simp add: no_files_def)
  have b: "path_exists local_files DEFAULT_CSV_PATH" by (simp add: local_files_def)
  have c: "read_csv local_files DEFAULT_CSV_PATH = Inr (sample_frame [Str ''M-1'', Str ''M-2''])"
    by (simp add: local_files_def)
  have d: "read_csv no_files p = Inl ReadError" for p by (simp add: no_files_def)
  show ?thesis
    using read_input_resolution [of "''missions.csv''" no_files]
      read_input_resolution [of "''missions.csv''" local_files]
    by (simp add: a b c d not_url_example)
qed

section \<open>\<open>normalize\<close> and the caller's frame\<close>

lemma assign_in_other: "b \<noteq> r \<Longrightarrow> objs (snd (assign_in r f st)) b = objs st b"
  by (simp add: assign_in_def split: option.splits sum.splits)

lemma then_assign_other:
  assumes "objs (snd x) b = objs st0 b" and "\<And>st. objs (snd (f st)) b = objs st b"
  shows "objs (snd (then_assign x f)) b = objs st0 b"
  using assms by (cases x) (auto simp: then_assign_def split: option.splits)

lemma coerce_all_st_other: "b \<noteq> r \<Longrightarrow> objs (snd (coerce_all_st pd r st)) b = objs st b"
  unfolding coerce_all_st_def
  by (intro then_assign_other assign_in_other)

lemma assign_in_Some:
  "objs st r = Some d \<Longrightarrow>
     assign_in r f st =
       (case f d of Inl e \<Rightarrow> (Some e, st) | Inr d' \<Rightarrow> (None, st\<lparr>objs := (objs st)(r \<mapsto> d')\<rparr>))"
  by (simp add: assign_in_def)

lemma coerce_all_st_result:
  assumes "objs st r = Some d"
  shows "fst (coerce_all_st pd r st) = (case coerce_all pd d of Inl e \<Rightarrow> Some e | Inr _ \<Rightarrow> None) \<and>
         (\<forall>d'. coerce_all pd d = Inr d' \<longrightarrow> objs (snd (coerce_all_st pd r st)) r = Some d')"
  unfolding coerce_all_st_def coerce_all_def
  using assms
  by (auto simp: assign_in_def then_assign_def and_then_def split: sum.splits)

text \<open>
  Claim C10. \<open>normalize\<close> does not change the frame it is given: for a reference \<open>a\<close> in
  use in the store, the object at \<open>a\<close> (labels, values, index) and every other object in
  use are the same after the call; the result is a new object, at a reference that was
  not in use, which holds the normalized frame.
\<close>

theorem normalize_leaves_input:
  assumes "objs st a = Some df" and "a < next_ref st"
  shows "objs (snd (normalize_st pd a st)) a = Some df \<and>
         (\<forall>b<next_ref st. objs (snd (normalize_st pd a st)) b = objs st b) \<and>
         (case fst (normalize_st pd a st) of
            Inl e \<Rightarrow> normalize pd df = Inl e
          | Inr r \<Rightarrow> next_ref st \<le> r \<and>
              (\<exists>out. objs (snd (normalize_st pd a st)) r = Some out \<and> normalize pd df = Inr out))"
proof (cases "missing_columns df = []")
  case False
  then show ?thesis
    using assms by (simp add: normalize_st_missing normalize_missing)
next
  case True
  let ?ren = "rename COLUMN_MAP df"
  let ?st1 = "st\<lparr>objs := (objs st)(next_ref st \<mapsto> ?ren), next_ref := Suc (next_ref st)\<rparr>"
  let ?r = "Suc (next_ref st)"
  let ?st2 = "?st1\<lparr>objs := (objs ?st1)(?r \<mapsto> ?ren), next_ref := Suc ?r\<rparr>"
  have n: "normalize_st pd a st =
      ((case fst (coerce_all_st pd ?r ?st2) of Some e \<Rightarrow> Inl e | None \<Rightarrow> Inr ?r),
       snd (coerce_all_st pd ?r ?st2))"
    using assms(1) True
    by (auto simp: normalize_st_def alloc_def Let_def split: prod.splits option.splits)
  have at_r: "objs ?st2 ?r = Some ?ren" by simp
  note res = coerce_all_st_result [OF at_r, of pd]
  have old: "objs (snd (coerce_all_st pd ?r ?st2)) b = objs st b" if "b < next_ref st" for b
    using that coerce_all_st_other [of b ?r pd ?st2] by simp
  have 1: "objs (snd (normalize_st pd a st)) a = Some df"
    unfolding n using old [OF assms(2)] assms(1) by simp
  have 2: "\<forall>b<next_ref st. objs (snd (normalize_st pd a st)) b = objs st b"
    unfolding n using old by simp
  have 3: "(case fst (normalize_st pd a st) of
            Inl e \<Rightarrow> normalize pd df = Inl e
          | Inr r \<Rightarrow> next_ref st \<le> r \<and>
              (\<exists>out. objs (snd (normalize_st pd a st)) r = Some out \<and> normalize pd df = Inr out))"
    unfolding n normalize_present [OF True] using res
    by (cases "coerce_all pd ?ren") auto
  from 1 2 3 show ?thesis by blast
qed

theorem normalize_leaves_input_witness:
  "objs (snd (normalize_st demo_pd 0 (demo_store (sample_frame [Str ''M-1'', Str ''M-2''])))) 0 =
     Some (sample_frame [Str ''M-1'', Str ''M-2'']) \<and>
   (\<exists>r out. fst (normalize_st demo_pd 0 (demo_store (sample_frame [Str ''M-1'', Str ''M-2'']))) = Inr r \<and>
      0 < r \<and>
      objs (snd (normalize_st demo_pd 0 (demo_store (sample_frame [Str ''M-1'', Str ''M-2''])))) r = Some out \<and>
      normalize demo_pd (sample_frame [Str ''M-1'', Str ''M-2'']) = Inr out)"
proof -
  let ?f = "sample_frame [Str ''M-1'', Str ''M-2'']"
  have a: "objs (demo_store ?f) 0 = Some ?f" and b: "0 < next_ref (demo_store ?f)"
    and nr: "next_ref (demo_store ?f) = 1"
    by (simp_all add: demo_store_def)
  have "accepted ?f" by (rule accepted_sample_frame) simp
  then obtain out where o: "normalize demo_pd ?f = Inr out" using accepted_normalize by blast
  from normalize_leaves_input [OF a b, of demo_pd] o show ?thesis
    by (cases "fst (normalize_st demo_pd 0 (demo_store ?f))") (auto simp: nr)
qed

section \<open>Properties of the fetches\<close>

lemma apod_step_None_iff: "apod_step net k acc = None \<longleftrightarrow> apod_step net k [] = None"
  by (auto simp: apod_step_def split: option.splits)

lemma apod_loop_stop:
  "apod_step net k [] = None \<Longrightarrow> apod_loop net (xs @ k # ys) acc = apod_loop net xs acc"
proof (induction xs arbitrary: acc)
  case Nil
  then have "apod_step net k acc = None" using apod_step_None_iff by blast
  then show ?case by simp
next
  case (Cons x xs)
  then show ?case by (cases "apod_step net x acc") simp_all
qed

lemma upt_split: "k < n \<Longrightarrow> [0 ..< n] = [0 ..< k] @ k # [Suc k ..< n]"
  using upt_add_eq_append [of 0 k "n - k"] by (simp add: upt_conv_Cons)

lemma fetch_nasa_apod_stop:
  assumes "k < nat days" and "apod_get net k = None"
  shows "fetch_nasa_apod net days = fetch_nasa_apod net (int k)"
proof -
  have "apod_step net k [] = None" using assms(2) by (simp add: apod_step_def)
  then show ?thesis
    unfolding fetch_nasa_apod_def upt_split [OF assms(1)] by (simp add: apod_loop_stop)
qed

lemma fetch_nasa_apod_first: "apod_get net 0 = None \<Longrightarrow> fetch_nasa_apod net days = []"
proof (cases "0 < nat days")
  case True
  assume "apod_get net 0 = None"
  from fetch_nasa_apod_stop [OF True this] show ?thesis by (simp add: fetch_nasa_apod_def)
next
  case False
  then show ?thesis by (simp add: fetch_nasa_apod_def)
qed

lemma fetch_nasa_neo_first: "neo_get net = None \<Longrightarrow> fetch_nasa_neo net = []"
  by (simp add: fetch_nasa_neo_def)

lemma fetch_nasa_exoplanet_first: "exoplanet_get net = None \<Longrightarrow> fetch_nasa_exoplanet net = []"
  by (simp add: fetch_nasa_exoplanet_def)

lemma earth_loop_stop:
  "earth_head net (fst x) = None \<Longrightarrow> earth_loop net (xs @ x # ys) acc = earth_loop net xs acc"
proof (induction xs arbitrary: acc)
  case Nil
  then show ?case by (cases x) simp
next
  case (Cons y xs)
  then show ?case by (cases y) (simp split: option.splits)
qed

lemma fetch_nasa_earth_imagery_stop:
  assumes "k < length locations" and "earth_head net k = None"
  shows "fetch_nasa_earth_imagery net =
           earth_loop net (take k (zip [0 ..< length locations] locations)) []"
proof -
  let ?zs = "zip [0 ..< length locations] locations"
  have k: "k < length ?zs" using assms(1) by simp
  have "fst (?zs ! k) = k" using assms(1) by simp
  with assms(2) have h: "earth_head net (fst (?zs ! k)) = None" by simp
  have "?zs = take k ?zs @ ?zs ! k # drop (Suc k) ?zs" using k by (rule id_take_nth_drop)
  then have "earth_loop net ?zs [] = earth_loop net (take k ?zs @ ?zs ! k # drop (Suc k) ?zs) []"
    by simp
  also have "\<dots> = earth_loop net (take k ?zs) []" using h by (rule earth_loop_stop)
  finally show ?thesis by (simp add: fetch_nasa_earth_imagery_def)
qed

lemma fetch_nasa_earth_imagery_first:
  assumes "earth_head net 0 = None"
  shows "fetch_nasa_earth_imagery net = []"
proof -
  have "0 < length locations" by (simp add: locations_def)
  from fetch_nasa_earth_imagery_stop [OF this assms] show ?thesis by simp
qed

text \<open>The flaky network: the request of day 0 answers, the request of day 1 raises.\<close>

lemma apod_entry_example:
  "apod_entry (JObj [(''date'', JStr ''2026-11-04''), (''title'', JStr ''Nebula''),
                     (''explanation'', JStr ''A cloud.''), (''url'', JStr ''https://apod/1.jpg''),
                     (''media_type'', JStr ''image'')]) =
     Some [(''date'', JStr ''2026-11-04''), (''title'', JStr ''Nebula''),
           (''explanation'', JStr ''A cloud.''), (''url'', JStr ''https://apod/1.jpg''),
           (''media_type'', JStr ''image''), (''source'', JStr ''APOD'')]"
  by (simp add: apod_entry_def py_get_def slice500_def)

lemma fetch_flaky_one:
  "fetch_nasa_apod flaky_network 1 =
     [[(''date'', JStr ''2026-11-04''), (''title'', JStr ''Nebula''),
       (''explanation'', JStr ''A cloud.''), (''url'', JStr ''https://apod/1.jpg''),
       (''media_type'', JStr ''image''), (''source'', JStr ''APOD'')]]"
  by (simp add: fetch_nasa_apod_def apod_step_def flaky_network_def apod_response_def
      apod_entry_example)

text \<open>
  Claim C7 as stated fails: the daily-image fetch meets a request failure on day 1 and
  returns the entry of day 0, not an empty list.
\<close>

theorem apod_failure_keeps_entries:
  "apod_get flaky_network 1 = None \<and>
   fetch_nasa_apod flaky_network 7 =
     [[(''date'', JStr ''2026-11-04''), (''title'', JStr ''Nebula''),
       (''explanation'', JStr ''A cloud.''), (''url'', JStr ''https://apod/1.jpg''),
       (''media_type'', JStr ''image''), (''source'', JStr ''APOD'')]]"
proof -
  have a: "apod_get flaky_network 1 = None" by (simp add: flaky_network_def)
  have "(1::nat) < nat 7" by simp
  from fetch_nasa_apod_stop [OF this a] have "fetch_nasa_apod flaky_network 7 = fetch_nasa_apod flaky_network 1"
    by simp
  with a show ?thesis by (simp add: fetch_flaky_one)
qed

section \<open>Properties of \<open>ensure_database\<close>\<close>

lemma store_nasa_data_tables:
  "store_nasa_data db a n x e = (res, db') \<Longrightarrow>
     missions db' = missions db \<and> apod db' \<noteq> None \<and> neo db' \<noteq> None \<and>
     exoplanet db' \<noteq> None \<and> earth_imagery db' \<noteq> None"
  by (auto simp: store_nasa_data_def create_aux_tables_def Let_def split: option.splits)

lemma store_nasa_data_nothing:
  "store_nasa_data db [] [] [] [] = (res, db') \<Longrightarrow>
     res = None \<and> table_rows (apod db') = table_rows (apod db) \<and>
     table_rows (neo db') = table_rows (neo db) \<and>
     table_rows (exoplanet db') = table_rows (exoplanet db) \<and>
     table_rows (earth_imagery db') = table_rows (earth_imagery db)"
  by (auto simp: store_nasa_data_def create_aux_tables_def Let_def table_rows_def)

lemma length_rows_of [simp]: "length (rows_of df) = length (index df)"
  by (simp add: rows_of_def)


lemma build_accepts:
  assumes "schema_readable env" and "table_accepts env df"
  shows "\<exists>db. db_file (snd (build env df w)) = Some db \<and> missions db = Some (rows_of df) \<and>
           apod db \<noteq> None \<and> neo db \<noteq> None \<and> exoplanet db \<noteq> None \<and> earth_imagery db \<noteq> None"
proof -
  let ?db0 = "case db_file w of None \<Rightarrow> empty_database | Some db \<Rightarrow> db"
  let ?db2 = "(run_schema_script ?db0)\<lparr>missions := Some (rows_of df)\<rparr>"
  obtain res db3 where s: "store_nasa_data ?db2 (fetch_nasa_apod (env_net env) 7)
      (fetch_nasa_neo (env_net env)) (fetch_nasa_exoplanet (env_net env))
      (fetch_nasa_earth_imagery (env_net env)) = (res, db3)" by (cases "store_nasa_data ?db2 (fetch_nasa_apod (env_net env) 7)
      (fetch_nasa_neo (env_net env)) (fetch_nasa_exoplanet (env_net env))
      (fetch_nasa_earth_imagery (env_net env))") blast
  have b: "snd (build env df w) = w\<lparr>db_file := Some db3, schema_runs := Suc (schema_runs w)\<rparr>"
    using assms s
    by (simp add: build_def recreate_schema_def insert_data_def run_schema_script_def Let_def)
  from store_nasa_data_tables [OF s] show ?thesis unfolding b by simp
qed

lemma build_None:
  assumes "build env df w = (None, w')"
  shows "\<exists>db. db_file w' = Some db \<and> missions db = Some (rows_of df) \<and>
           schema_runs w' = Suc (schema_runs w)"
proof -
  let ?db0 = "case db_file w of None \<Rightarrow> empty_database | Some db \<Rightarrow> db"
  let ?db2 = "(run_schema_script ?db0)\<lparr>missions := Some (rows_of df)\<rparr>"
  obtain res db3 where s: "store_nasa_data ?db2 (fetch_nasa_apod (env_net env) 7)
      (fetch_nasa_neo (env_net env)) (fetch_nasa_exoplanet (env_net env))
      (fetch_nasa_earth_imagery (env_net env)) = (res, db3)" by (cases "store_nasa_data ?db2 (fetch_nasa_apod (env_net env) 7)
      (fetch_nasa_neo (env_net env)) (fetch_nasa_exoplanet (env_net env))
      (fetch_nasa_earth_imagery (env_net env))") blast
  from assms have r: "schema_readable env"
    by (cases "schema_readable env") (simp_all add: build_def recreate_schema_def Let_def)
  from assms r have t: "table_accepts env df"
    by (cases "table_accepts env df")
      (simp_all add: build_def recreate_schema_def insert_data_def run_schema_script_def Let_def)
  have "w' = w\<lparr>db_file := Some db3, schema_runs := Suc (schema_runs w)\<rparr>"
    using assms r t s
    by (auto simp: build_def recreate_schema_def insert_data_def run_schema_script_def Let_def)
  with store_nasa_data_tables [OF s] show ?thesis by simp
qed

lemma build_dead_network:
  assumes "schema_readable env" and "table_accepts env df"
    and "apod_get (env_net env) 0 = None" and "neo_get (env_net env) = None"
    and "exoplanet_get (env_net env) = None" and "earth_head (env_net env) 0 = None"
  shows "fst (build env df w) = None"
proof -
  let ?db0 = "case db_file w of None \<Rightarrow> empty_database | Some db \<Rightarrow> db"
  let ?db2 = "(run_schema_script ?db0)\<lparr>missions := Some (rows_of df)\<rparr>"
  obtain res db3 where s: "store_nasa_data ?db2 [] [] [] [] = (res, db3)"
    by (cases "store_nasa_data ?db2 [] [] [] []") blast
  from store_nasa_data_nothing [OF s] have "res = None" by simp
  then show ?thesis
    using assms(1,2) s
    by (simp add: build_def recreate_schema_def insert_data_def run_schema_script_def Let_def
        fetch_nasa_apod_first [OF assms(3)] fetch_nasa_neo_first [OF assms(4)]
        fetch_nasa_exoplanet_first [OF assms(5)] fetch_nasa_earth_imagery_first [OF assms(6)])
qed

lemma ensure_database_full_load:
  assumes "\<not> populated w" and "fst (read_input (env_files env) None) = Inr df"
    and "normalize (env_pd env) df = Inr ndf" and "makedirs_ok env"
  shows "ensure_database env w = build env ndf w"
  using assms by (simp add: ensure_database_def)

lemma ensure_database_None:
  assumes "\<not> populated w" and "fst (read_input (env_files env) None) = Inr df"
    and "ensure_database env w = (None, w')"
  shows "\<exists>ndf. normalize (env_pd env) df = Inr ndf \<and> build env ndf w = (None, w')"
  using assms by (auto simp: ensure_database_def split: sum.splits if_splits)

lemma populated_iff: "populated w \<longleftrightarrow> 0 < mission_count w"
  by (auto simp: populated_def mission_count_def table_rows_def split: option.splits)

lemma ensure_database_populated: "populated w \<Longrightarrow> ensure_database env w = (None, w)"
  by (simp add: ensure_database_def)

lemma normalize_index: "normalize pd df = Inr out \<Longrightarrow> index out = index df"
  using coerce_all_Inr(1) [OF normalize_Inr_coerce_all(2)] by fastforce

lemma demo_env_fields:
  "env_pd demo_env = demo_pd" "makedirs_ok demo_env" "schema_readable demo_env"
  "table_accepts demo_env df" "env_net demo_env = dead_network"
  "fst (read_input (env_files demo_env) None) = Inr (sample_frame [Str ''M-1'', Str ''M-2''])"
  by (simp_all add: demo_env_def read_input_def read_default_def local_files_def
      DEFAULT_CSV_PATH_nonempty)

lemma dead_network_fields:
  "apod_get dead_network i = None" "neo_get dead_network = None"
  "exoplanet_get dead_network = None" "earth_head dead_network i = None"
  by (simp_all add: dead_network_def)

lemma fresh_world_empty: "\<not> populated fresh_world"
  by (simp add: populated_def fresh_world_def)

lemma demo_load:
  "\<exists>ndf. normalize demo_pd (sample_frame [Str ''M-1'', Str ''M-2'']) = Inr ndf \<and>
         ensure_database demo_env fresh_world = build demo_env ndf fresh_world \<and>
         fst (ensure_database demo_env fresh_world) = None"
proof -
  have "accepted (sample_frame [Str ''M-1'', Str ''M-2''] :: int frame)"
    by (rule accepted_sample_frame) simp
  then obtain ndf where n: "normalize demo_pd (sample_frame [Str ''M-1'', Str ''M-2'']) = Inr ndf"
    using accepted_normalize by blast
  have e: "ensure_database demo_env fresh_world = build demo_env ndf fresh_world"
    by (rule ensure_database_full_load [OF fresh_world_empty demo_env_fields(6)])
      (simp_all add: demo_env_fields n)
  have "fst (build demo_env ndf fresh_world) = None"
    by (rule build_dead_network) (simp_all add: demo_env_fields dead_network_fields)
  with n e show ?thesis by simp
qed



text \<open>
  Claim C3. When an invocation of \<open>ensure_database\<close> succeeds and has loaded a CSV of at
  least one row (or found the table populated), the \<open>missions\<close> table holds at least one
  row, and the next invocation on the same target returns at once and changes nothing,
  whatever the CSV and the network are by then: same mission rows, no execution of the
  schema script, same auxiliary tables.
\<close>

theorem ensure_database_twice:
  assumes "ensure_database env1 w = (None, w1)"
    and "populated w \<or> (\<exists>df. fst (read_input (env_files env1) None) = Inr df \<and> index df \<noteq> [])"
  shows "0 < mission_count w1 \<and>
         ensure_database env2 w1 = (None, w1) \<and>
         mission_count (snd (ensure_database env2 w1)) = mission_count w1 \<and>
         schema_runs (snd (ensure_database env2 w1)) = schema_runs w1 \<and>
         db_file (snd (ensure_database env2 w1)) = db_file w1"
proof -
  have c: "0 < mission_count w1"
  proof (cases "populated w")
    case True
    with assms(1) have "w1 = w" by (simp add: ensure_database_populated)
    with True show ?thesis by (simp add: populated_iff)
  next
    case False
    with assms(2) obtain df where r: "fst (read_input (env_files env1) None) = Inr df"
      and n: "index df \<noteq> []" by blast
    from ensure_database_None [OF False r assms(1)] obtain ndf where
      nd: "normalize (env_pd env1) df = Inr ndf" and b: "build env1 ndf w = (None, w1)" by blast
    from build_None [OF b] obtain db where
      d: "db_file w1 = Some db" and m: "missions db = Some (rows_of ndf)" by blast
    from normalize_index [OF nd] n have "index ndf \<noteq> []" by simp
    then show ?thesis by (simp add: mission_count_def d m table_rows_def)
  qed
  then have "populated w1" by (simp add: populated_iff)
  then have "ensure_database env2 w1 = (None, w1)" by (rule ensure_database_populated)
  with c show ?thesis by simp
qed

lemma demo_world_after:
  "ensure_database demo_env fresh_world = (None, snd (ensure_database demo_env fresh_world)) \<and>
   mission_count (snd (ensure_database demo_env fresh_world)) = 2 \<and>
   schema_runs (snd (ensure_database demo_env fresh_world)) = 1"
proof -
  from demo_load obtain ndf where
    n: "normalize demo_pd (sample_frame [Str ''M-1'', Str ''M-2'']) = Inr ndf" and
    b: "ensure_database demo_env fresh_world = build demo_env ndf fresh_world" and
    f: "fst (ensure_database demo_env fresh_world) = None" by blast
  let ?w1 = "snd (ensure_database demo_env fresh_world)"
  from f have e: "ensure_database demo_env fresh_world = (None, ?w1)" by (simp add: prod_eq_iff)
  with b have "build demo_env ndf fresh_world = (None, ?w1)" by simp
  from build_None [OF this] obtain db where
    d: "db_file ?w1 = Some db" and m: "missions db = Some (rows_of ndf)" and
    s: "schema_runs ?w1 = Suc (schema_runs fresh_world)" by blast
  have "index ndf = [0, 1]" using normalize_index [OF n] by (simp add: index_sample_frame)
  then have "mission_count ?w1 = 2" by (simp add: mission_count_def d m table_rows_def)
  with e s show ?thesis by (simp add: fresh_world_def)
qed

theorem ensure_database_twice_witness:
  "ensure_database (demo_env\<lparr>env_files := no_files, env_net := flaky_network\<rparr>)
     (snd (ensure_database demo_env fresh_world)) =
     (None, snd (ensure_database demo_env fresh_world)) \<and>
   mission_count (snd (ensure_database demo_env fresh_world)) = 2 \<and>
   schema_runs (snd (ensure_database demo_env fresh_world)) = 1"
proof -
  have e: "ensure_database demo_env fresh_world = (None, snd (ensure_database demo_env fresh_world))"
    using demo_world_after by blast
  have h: "populated fresh_world \<or>
      (\<exists>df. fst (read_input (env_files demo_env) None) = Inr df \<and> index df \<noteq> [])"
    using demo_env_fields(6) by (auto simp: index_sample_frame)
  from ensure_database_twice [OF e h, of "demo_env\<lparr>env_files := no_files, env_net := flaky_network\<rparr>"]
    demo_world_after
  show ?thesis by simp
qed

text \<open>
  Claim C7, amended. Each of the four fetches ends at the first error it meets and
  returns the list built so far: when the request of day \<open>k\<close> of the daily-image fetch
  raises, the result is what the first \<open>k\<close> days gave (empty for \<open>k = 0\<close>), and likewise
  for the \<open>k\<close>-th location of the imagery fetch; when the single request of the
  near-earth-object or of the exoplanet fetch raises, the result is empty. No failure of a
  fetch keeps \<open>ensure_database\<close> from storing: once the CSV is read and normalized and the
  schema script and the insert of the mission rows succeed, the four auxiliary tables exist
  whatever the network answered, and when all four fetches fail at their first request
  \<open>ensure_database\<close> succeeds.
\<close>

theorem fetch_failures_absorbed:
  "(\<forall>k. k < nat days \<and> apod_get net k = None \<longrightarrow>
        fetch_nasa_apod net days = fetch_nasa_apod net (int k)) \<and>
   (apod_get net 0 = None \<longrightarrow> fetch_nasa_apod net days = []) \<and>
   (neo_get net = None \<longrightarrow> fetch_nasa_neo net = []) \<and>
   (exoplanet_get net = None \<longrightarrow> fetch_nasa_exoplanet net = []) \<and>
   (\<forall>k. k < length locations \<and> earth_head net k = None \<longrightarrow>
        fetch_nasa_earth_imagery net =
          earth_loop net (take k (zip [0 ..< length locations] locations)) []) \<and>
   (earth_head net 0 = None \<longrightarrow> fetch_nasa_earth_imagery net = []) \<and>
   (\<not> populated w \<and> fst (read_input (env_files env) None) = Inr df \<and>
    normalize (env_pd env) df = Inr ndf \<and> makedirs_ok env \<and> schema_readable env \<and>
    table_accepts env ndf \<longrightarrow>
      (\<exists>db. db_file (snd (ensure_database env w)) = Some db \<and>
         missions db = Some (rows_of ndf) \<and> apod db \<noteq> None \<and> neo db \<noteq> None \<and>
         exoplanet db \<noteq> None \<and> earth_imagery db \<noteq> None) \<and>
      (apod_get (env_net env) 0 = None \<and> neo_get (env_net env) = None \<and>
       exoplanet_get (env_net env) = None \<and> earth_head (env_net env) 0 = None \<longrightarrow>
         fst (ensure_database env w) = None))"
proof (intro conjI allI impI)
  fix k assume "k < nat days \<and> apod_get net k = None"
  then show "fetch_nasa_apod net days = fetch_nasa_apod net (int k)"
    using fetch_nasa_apod_stop by blast
next
  assume "apod_get net 0 = None"
  then show "fetch_nasa_apod net days = []" by (rule fetch_nasa_apod_first)
next
  assume "neo_get net = None"
  then show "fetch_nasa_neo net = []" by (rule fetch_nasa_neo_first)
next
  assume "exoplanet_get net = None"
  then show "fetch_nasa_exoplanet net = []" by (rule fetch_nasa_exoplanet_first)
next
  fix k assume "k < length locations \<and> earth_head net k = None"
  then show "fetch_nasa_earth_imagery net =
          earth_loop net (take k (zip [0 ..< length locations] locations)) []"
    using fetch_nasa_earth_imagery_stop by blast
next
  assume "earth_head net 0 = None"
  then show "fetch_nasa_earth_imagery net = []" by (rule fetch_nasa_earth_imagery_first)
next
  assume a: "\<not> populated w \<and> fst (read_input (env_files env) None) = Inr df \<and>
    normalize (env_pd env) df = Inr ndf \<and> makedirs_ok env \<and> schema_readable env \<and>
    table_accepts env ndf"
  then have e: "ensure_database env w = build env ndf w"
    using ensure_database_full_load by blast
  from a build_accepts [of env ndf w]
  show "\<exists>db. db_file (snd (ensure_database env w)) = Some db \<and>
         missions db = Some (rows_of ndf) \<and> apod db \<noteq> None \<and> neo db \<noteq> None \<and>
         exoplanet db \<noteq> None \<and> earth_imagery db \<noteq> None"
    unfolding e by blast
next
  assume a: "\<not> populated w \<and> fst (read_input (env_files env) None) = Inr df \<and>
    normalize (env_pd env) df = Inr ndf \<and> makedirs_ok env \<and> schema_readable env \<and>
    table_accepts env ndf"
    and d: "apod_get (env_net env) 0 = None \<and> neo_get (env_net env) = None \<and>
       exoplanet_get (env_net env) = None \<and> earth_head (env_net env) 0 = None"
  from a have e: "ensure_database env w = build env ndf w"
    using ensure_database_full_load by blast
  from a d show "fst (ensure_database env w) = None"
    unfolding e using build_dead_network by blast
qed

theorem fetch_failures_absorbed_witness:
  "fetch_nasa_apod flaky_network 7 = fetch_nasa_apod flaky_network 1 \<and>
   fetch_nasa_neo flaky_network = [] \<and>
   fetch_nasa_exoplanet flaky_network = [] \<and>
   fetch_nasa_earth_imagery flaky_network = [] \<and>
   fst (ensure_database demo_env fresh_world) = None \<and>
   (\<exists>ndf db. normalize demo_pd (sample_frame [Str ''M-1'', Str ''M-2'']) = Inr ndf \<and>
      db_file (snd (ensure_database demo_env fresh_world)) = Some db \<and>
      missions db = Some (rows_of ndf) \<and> apod db \<noteq> None \<and> neo db \<noteq> None \<and>
      exoplanet db \<noteq> None \<and> earth_imagery db \<noteq> None)"
proof -
  have f: "apod_get flaky_network 1 = None" "neo_get flaky_network = None"
    "exoplanet_get flaky_network = None" "earth_head flaky_network 0 = None"
    by (simp_all add: flaky_network_def)
  have k: "(1::nat) < nat 7" by simp
  note T = fetch_failures_absorbed [of 7 flaky_network]
  have 1: "fetch_nasa_apod flaky_network 7 = fetch_nasa_apod flaky_network 1"
    using T [THEN conjunct1, rule_format, of 1] k f(1) by simp
  have 2: "fetch_nasa_neo flaky_network = []" "fetch_nasa_exoplanet flaky_network = []"
    "fetch_nasa_earth_imagery flaky_network = []"
    using T f by blast+
  from demo_load obtain ndf where
    n: "normalize demo_pd (sample_frame [Str ''M-1'', Str ''M-2'']) = Inr ndf" by blast
  have h: "\<not> populated fresh_world \<and>
    fst (read_input (env_files demo_env) None) = Inr (sample_frame [Str ''M-1'', Str ''M-2'']) \<and>
    normalize (env_pd demo_env) (sample_frame [Str ''M-1'', Str ''M-2'']) = Inr ndf \<and>
    makedirs_ok demo_env \<and> schema_readable demo_env \<and> table_accepts demo_env ndf"
    by (simp add: fresh_world_empty demo_env_fields n)
  have d: "apod_get (env_net demo_env) 0 = None \<and> neo_get (env_net demo_env) = None \<and>
       exoplanet_get (env_net demo_env) = None \<and> earth_head (env_net demo_env) 0 = None"
    by (simp add: demo_env_fields dead_network_fields)
  note U = fetch_failures_absorbed [of 7 dead_network fresh_world demo_env
      "sample_frame [Str ''M-1'', Str ''M-2'']" ndf]
  from U h d have 3: "fst (ensure_database demo_env fresh_world) = None" by blast
  from U h have 4: "\<exists>db. db_file (snd (ensure_database demo_env fresh_world)) = Some db \<and>
      missions db = Some (rows_of ndf) \<and> apod db \<noteq> None \<and> neo db \<noteq> None \<and>
      exoplanet db \<noteq> None \<and> earth_imagery db \<noteq> None" by blast
  from 1 2 3 4 n show ?thesis by blast
qed

end
